theory Spec2Isabelle
  imports Complex_Main
begin

section \<open>Fujimi Landscape business model: data model\<close>

text \<open>
  The theory embeds \<^verbatim>\<open>FujimBusinessModel\<close> of \<^verbatim>\<open>fujimi_business_model.py\<close>, the
  break-even computations of \<^verbatim>\<open>create_comprehensive_analysis\<close> and of
  \<^verbatim>\<open>streamlit_app.py\<close>, and the cost what-if block of \<^verbatim>\<open>streamlit_app.py\<close>.

  Numbers. Python's \<^verbatim>\<open>int\<close> and \<^verbatim>\<open>float\<close> values are modelled as exact reals:
  neither the rounding of IEEE doubles nor overflow is modelled, every arithmetic
  operation is the exact one. (A Python \<^verbatim>\<open>int\<close> beyond the range of a float raises
  \<^verbatim>\<open>OverflowError\<close> when it meets a float; such values are outside the model.)
  A value that may also be \<^verbatim>\<open>None\<close> (an optional argument, an entry of \<^verbatim>\<open>params\<close>) is
  a \<open>pyval\<close>. The result \<^verbatim>\<open>float('inf')\<close> of the payback computations is the
  constructor \<open>PosInf\<close> of its own type, so that it cannot be confused with a number.

  numpy scalars. The samples of a sweep are \<^verbatim>\<open>numpy.float64\<close> scalars, and the sweep
  writes them into \<^verbatim>\<open>params\<close>. They behave like Python numbers in every operation of
  the engine but one: a division in which an operand is a numpy scalar does not raise on
  a zero divisor, it yields \<^verbatim>\<open>inf\<close>, \<^verbatim>\<open>-inf\<close> or \<^verbatim>\<open>nan\<close> with a warning. A
  \<open>pyval\<close> therefore records whether a number is a Python number (\<open>PyNum\<close>) or a
  numpy scalar (\<open>NpNum\<close>), and the one quotient of the engine whose divisor is not
  guarded, the depreciation, is an \<open>fvalue\<close>: a number or \<open>NonFinite\<close>, which stands
  for any of \<^verbatim>\<open>inf\<close>, \<^verbatim>\<open>-inf\<close> and \<^verbatim>\<open>nan\<close>.

  Errors. Every place where the Python code can raise is a branch of the model that
  returns \<open>Inl\<close> of the exception: a missing dictionary key (\<open>KeyError\<close>), arithmetic
  on \<^verbatim>\<open>None\<close> (\<open>TypeError\<close>), a division by zero (\<open>ZeroDivisionError\<close>) and a
  negative sample count given to \<^verbatim>\<open>numpy.linspace\<close> (\<open>ValueError\<close>).
\<close>

datatype pyval = PyNone | PyNum real | NpNum real

datatype fvalue = Fin real | NonFinite

datatype error = KeyError | TypeError | ZeroDivisionError | ValueError

datatype payback = Finite real | PosInf

text \<open>The three dictionaries held by a \<^verbatim>\<open>FujimBusinessModel\<close> object. The inner
  dictionaries of \<^verbatim>\<open>variable_costs\<close> are iterated with \<^verbatim>\<open>.items()\<close>, so they are
  association lists in insertion order.\<close>

record model =
  params :: "string \<rightharpoonup> pyval"
  fixed_costs :: "string \<rightharpoonup> (string \<rightharpoonup> real)"
  variable_costs :: "string \<rightharpoonup> (string \<times> real) list"

text \<open>\<^verbatim>\<open>FujimBusinessModel.__init__\<close>.\<close>

definition init_model :: model where
  "init_model = \<lparr>
     params = [
       ''owned_initial_investment'' \<mapsto> PyNum 18900000,
       ''rental_initial_investment'' \<mapsto> PyNum 5500000,
       ''base_occupancy_rate'' \<mapsto> PyNum 0.33,
       ''average_price_per_night'' \<mapsto> PyNum 25000,
       ''owned_properties'' \<mapsto> PyNum 15,
       ''rental_properties'' \<mapsto> PyNum 15,
       ''depreciation_years'' \<mapsto> PyNum 7,
       ''monthly_rent'' \<mapsto> PyNum 70000],
     fixed_costs = [
       ''owned'' \<mapsto> [
         ''operations_fixed'' \<mapsto> 400000,
         ''utilities_fixed'' \<mapsto> 80000,
         ''insurance'' \<mapsto> 60000],
       ''rental'' \<mapsto> [
         ''rent'' \<mapsto> 840000,
         ''operations_fixed'' \<mapsto> 900000,
         ''utilities_fixed'' \<mapsto> 60000,
         ''insurance'' \<mapsto> 40000]],
     variable_costs = [
       ''owned'' \<mapsto> [
         (''operations_variable'', 240000 * 0.33),
         (''utilities_variable'', 68000 * 0.33),
         (''cleaning_maintenance'', 120000 * 0.33)],
       ''rental'' \<mapsto> [
         (''operations_variable'', 594000 * 0.33),
         (''utilities_variable'', 55000 * 0.33),
         (''cleaning_maintenance'', 150000 * 0.33)]]
   \<rparr>"

subsection \<open>Python primitives\<close>

text \<open>Sequencing of computations that may raise.\<close>

definition and_then :: "error + 'a \<Rightarrow> ('a \<Rightarrow> error + 'b) \<Rightarrow> error + 'b" where
  "and_then x f = (case x of Inl e \<Rightarrow> Inl e | Inr a \<Rightarrow> f a)"

text \<open>Truth value of a Python object: \<^verbatim>\<open>None\<close>, \<^verbatim>\<open>0\<close> and \<^verbatim>\<open>0.0\<close> are false.\<close>

definition truthy :: "pyval \<Rightarrow> bool" where
  "truthy v = (case v of PyNone \<Rightarrow> False | PyNum r \<Rightarrow> r \<noteq> 0 | NpNum r \<Rightarrow> r \<noteq> 0)"

text \<open>\<^verbatim>\<open>d[k]\<close> on a dictionary.\<close>

definition subscript :: "('k \<rightharpoonup> 'v) \<Rightarrow> 'k \<Rightarrow> error + 'v" where
  "subscript d k = (case d k of None \<Rightarrow> Inl KeyError | Some v \<Rightarrow> Inr v)"

text \<open>\<^verbatim>\<open>v or self.params[k]\<close>: the right operand is only evaluated when \<open>v\<close> is false.\<close>

definition or_param :: "pyval \<Rightarrow> model \<Rightarrow> string \<Rightarrow> error + pyval" where
  "or_param v m k = (if truthy v then Inr v else subscript (params m) k)"

text \<open>A value used as an operand of \<^verbatim>\<open>*\<close> or \<^verbatim>\<open>/\<close> with a number.\<close>

definition num :: "pyval \<Rightarrow> error + real" where
  "num v = (case v of PyNone \<Rightarrow> Inl TypeError | PyNum r \<Rightarrow> Inr r | NpNum r \<Rightarrow> Inr r)"

text \<open>Whether a value is a numpy scalar. The product of a numpy scalar and a Python number
  is a numpy scalar.\<close>

definition is_numpy :: "pyval \<Rightarrow> bool" where
  "is_numpy v = (case v of NpNum r \<Rightarrow> True | _ \<Rightarrow> False)"

text \<open>\<^verbatim>\<open>a / b\<close> on Python numbers.\<close>

definition py_div :: "real \<Rightarrow> real \<Rightarrow> error + real" where
  "py_div a b = (if b = 0 then Inl ZeroDivisionError else Inr (a / b))"

text \<open>\<^verbatim>\<open>a / b\<close> where an operand may be a numpy scalar (\<open>numpy\<close> tells whether one
  is): with a zero divisor numpy returns a value that is not finite, Python raises.\<close>

definition true_div :: "bool \<Rightarrow> real \<Rightarrow> real \<Rightarrow> error + fvalue" where
  "true_div numpy a b =
     (if b \<noteq> 0 then Inr (Fin (a / b))
      else if numpy then Inr NonFinite
      else Inl ZeroDivisionError)"

text \<open>\<^verbatim>\<open>a + b\<close> where \<open>b\<close> may be not finite: the sum of a number and \<^verbatim>\<open>inf\<close>,
  \<^verbatim>\<open>-inf\<close> or \<^verbatim>\<open>nan\<close> is \<^verbatim>\<open>inf\<close>, \<^verbatim>\<open>-inf\<close> or \<^verbatim>\<open>nan\<close>.\<close>

definition add_fvalue :: "real \<Rightarrow> fvalue \<Rightarrow> fvalue" where
  "add_fvalue a b = (case b of Fin r \<Rightarrow> Fin (a + r) | NonFinite \<Rightarrow> NonFinite)"

section \<open>The calculation engine\<close>

text \<open>\<^verbatim>\<open>calculate_annual_revenue(occupancy_rate, price_per_night, num_properties)\<close>.\<close>

definition calculate_annual_revenue :: "real \<Rightarrow> real \<Rightarrow> real \<Rightarrow> real" where
  "calculate_annual_revenue occupancy_rate price_per_night num_properties =
     (let days_per_year = 365
      in occupancy_rate * price_per_night * days_per_year * num_properties)"

text \<open>\<^verbatim>\<open>calculate_variable_costs(occupancy_rate, property_type, num_properties)\<close>.
  The loop over \<^verbatim>\<open>variable_costs_per_property.items()\<close> is the fold.\<close>

definition calculate_variable_costs :: "model \<Rightarrow> real \<Rightarrow> string \<Rightarrow> real \<Rightarrow> error + real" where
  "calculate_variable_costs m occupancy_rate property_type num_properties =
     (let base_occupancy = 0.33;
          occupancy_factor = occupancy_rate / base_occupancy
      in and_then (subscript (variable_costs m) property_type)
           (\<lambda>variable_costs_per_property.
              let total_variable_costs =
                    fold (\<lambda>(cost_type, base_cost) total. total + base_cost * occupancy_factor)
                      variable_costs_per_property 0
              in Inr (total_variable_costs * num_properties)))"

text \<open>The dictionaries returned by the three metric functions, as records. The keys of
  the owned result carry the prefix \<open>o_\<close>, those of the rental result \<open>r_\<close>.\<close>

record owned_result =
  o_annual_revenue :: real
  o_noi :: real
  o_total_investment :: real
  o_payback_period :: payback
  o_roi :: real
  o_total_costs :: fvalue
  o_operating_costs :: real
  o_depreciation :: fvalue
  o_variable_costs :: real

record rental_result =
  r_annual_revenue :: real
  r_operating_profit :: real
  r_total_investment :: real
  r_payback_period :: payback
  r_roi :: real
  r_total_costs :: real
  r_fixed_costs :: real
  r_variable_costs :: real

record total_result =
  total_revenue :: real
  total_profit :: real
  total_investment :: real
  overall_payback :: payback
  overall_roi :: real
  owned_metrics :: owned_result
  rental_metrics :: rental_result

text \<open>\<^verbatim>\<open>self.fixed_costs[property_type][name]\<close>.\<close>

definition fixed_cost :: "model \<Rightarrow> string \<Rightarrow> string \<Rightarrow> error + real" where
  "fixed_cost m property_type name =
     and_then (subscript (fixed_costs m) property_type) (\<lambda>d. subscript d name)"

text \<open>\<^verbatim>\<open>self.params[name]\<close> used as an operand of an arithmetic operation: the
  lookup raises \<open>KeyError\<close>, the operation raises \<open>TypeError\<close> on \<^verbatim>\<open>None\<close>.\<close>

definition param_num :: "model \<Rightarrow> string \<Rightarrow> error + real" where
  "param_num m name = and_then (subscript (params m) name) num"

text \<open>\<^verbatim>\<open>calculate_owned_property_metrics(occupancy_rate=None, price_per_night=None,
  num_properties=None)\<close>. The first arithmetic on the three defaulted arguments is the
  product in \<^verbatim>\<open>calculate_annual_revenue\<close>, which raises \<open>TypeError\<close> when one of
  them is \<^verbatim>\<open>None\<close>.\<close>

definition calculate_owned_property_metrics ::
    "model \<Rightarrow> pyval \<Rightarrow> pyval \<Rightarrow> pyval \<Rightarrow> error + owned_result" where
  "calculate_owned_property_metrics m occupancy_rate0 price_per_night0 num_properties0 =
     and_then (or_param occupancy_rate0 m ''base_occupancy_rate'') (\<lambda>occupancy_rate1.
     and_then (or_param price_per_night0 m ''average_price_per_night'') (\<lambda>price_per_night1.
     and_then (or_param num_properties0 m ''owned_properties'') (\<lambda>num_properties1.
     and_then (num occupancy_rate1) (\<lambda>occupancy_rate.
     and_then (num price_per_night1) (\<lambda>price_per_night.
     and_then (num num_properties1) (\<lambda>num_properties.
     let annual_revenue =
           calculate_annual_revenue occupancy_rate price_per_night num_properties in
     and_then (fixed_cost m ''owned'' ''operations_fixed'') (\<lambda>operations_fixed.
     let fixed_operations_cost = operations_fixed * num_properties in
     and_then (fixed_cost m ''owned'' ''utilities_fixed'') (\<lambda>utilities_fixed.
     let fixed_utilities_cost = utilities_fixed * num_properties in
     and_then (fixed_cost m ''owned'' ''insurance'') (\<lambda>insurance.
     let insurance_cost = insurance * num_properties in
     and_then (calculate_variable_costs m occupancy_rate ''owned'' num_properties)
       (\<lambda>total_variable_costs.
     let operating_costs =
           fixed_operations_cost + fixed_utilities_cost + insurance_cost + total_variable_costs;
         noi = annual_revenue - operating_costs in
     and_then (subscript (params m) ''owned_initial_investment'')
       (\<lambda>owned_initial_investment1.
     and_then (num owned_initial_investment1) (\<lambda>owned_initial_investment.
     and_then (subscript (params m) ''depreciation_years'') (\<lambda>depreciation_years1.
     and_then (num depreciation_years1) (\<lambda>depreciation_years.
     and_then
       (true_div
          (is_numpy owned_initial_investment1 \<or> is_numpy num_properties1
             \<or> is_numpy depreciation_years1)
          (owned_initial_investment * num_properties) depreciation_years)
       (\<lambda>depreciation.
     let total_costs = add_fvalue operating_costs depreciation;
         total_investment = owned_initial_investment * num_properties;
         payback_period =
           (if noi > 0 then Finite (total_investment / noi) else PosInf);
         roi = (if total_investment > 0 then (noi / total_investment) * 100 else 0)
     in Inr \<lparr>o_annual_revenue = annual_revenue,
             o_noi = noi,
             o_total_investment = total_investment,
             o_payback_period = payback_period,
             o_roi = roi,
             o_total_costs = total_costs,
             o_operating_costs = operating_costs,
             o_depreciation = depreciation,
             o_variable_costs = total_variable_costs\<rparr>)))))))))))))))"

text \<open>\<^verbatim>\<open>calculate_rental_property_metrics(occupancy_rate=None, price_per_night=None,
  num_properties=None)\<close>.\<close>

definition calculate_rental_property_metrics ::
    "model \<Rightarrow> pyval \<Rightarrow> pyval \<Rightarrow> pyval \<Rightarrow> error + rental_result" where
  "calculate_rental_property_metrics m occupancy_rate0 price_per_night0 num_properties0 =
     and_then (or_param occupancy_rate0 m ''base_occupancy_rate'') (\<lambda>occupancy_rate1.
     and_then (or_param price_per_night0 m ''average_price_per_night'') (\<lambda>price_per_night1.
     and_then (or_param num_properties0 m ''rental_properties'') (\<lambda>num_properties1.
     and_then (num occupancy_rate1) (\<lambda>occupancy_rate.
     and_then (num price_per_night1) (\<lambda>price_per_night.
     and_then (num num_properties1) (\<lambda>num_properties.
     let annual_revenue =
           calculate_annual_revenue occupancy_rate price_per_night num_properties in
     and_then (fixed_cost m ''rental'' ''rent'') (\<lambda>rent.
     let rent_cost = rent * num_properties in
     and_then (fixed_cost m ''rental'' ''operations_fixed'') (\<lambda>operations_fixed.
     let fixed_operations_cost = operations_fixed * num_properties in
     and_then (fixed_cost m ''rental'' ''utilities_fixed'') (\<lambda>utilities_fixed.
     let fixed_utilities_cost = utilities_fixed * num_properties in
     and_then (fixed_cost m ''rental'' ''insurance'') (\<lambda>insurance.
     let insurance_cost = insurance * num_properties;
         total_fixed_costs =
           rent_cost + fixed_operations_cost + fixed_utilities_cost + insurance_cost in
     and_then (calculate_variable_costs m occupancy_rate ''rental'' num_properties)
       (\<lambda>total_variable_costs.
     let total_costs = total_fixed_costs + total_variable_costs;
         operating_profit = annual_revenue - total_costs in
     and_then (param_num m ''rental_initial_investment'') (\<lambda>rental_initial_investment.
     let total_investment = rental_initial_investment * num_properties;
         payback_period =
           (if operating_profit > 0 then Finite (total_investment / operating_profit)
            else PosInf);
         roi =
           (if total_investment > 0 then (operating_profit / total_investment) * 100 else 0)
     in Inr \<lparr>r_annual_revenue = annual_revenue,
             r_operating_profit = operating_profit,
             r_total_investment = total_investment,
             r_payback_period = payback_period,
             r_roi = roi,
             r_total_costs = total_costs,
             r_fixed_costs = total_fixed_costs,
             r_variable_costs = total_variable_costs\<rparr>))))))))))))"

text \<open>\<^verbatim>\<open>calculate_total_metrics(occupancy_rate=None, price_per_night=None)\<close>.\<close>

definition calculate_total_metrics ::
    "model \<Rightarrow> pyval \<Rightarrow> pyval \<Rightarrow> error + total_result" where
  "calculate_total_metrics m occupancy_rate price_per_night =
     and_then (calculate_owned_property_metrics m occupancy_rate price_per_night PyNone)
       (\<lambda>owned.
     and_then (calculate_rental_property_metrics m occupancy_rate price_per_night PyNone)
       (\<lambda>rental.
     let total_revenue' = o_annual_revenue owned + r_annual_revenue rental;
         total_profit' = o_noi owned + r_operating_profit rental;
         total_investment' = o_total_investment owned + r_total_investment rental;
         overall_payback' =
           (if total_profit' > 0 then Finite (total_investment' / total_profit') else PosInf);
         overall_roi' =
           (if total_investment' > 0 then (total_profit' / total_investment') * 100 else 0)
     in Inr \<lparr>total_revenue = total_revenue',
             total_profit = total_profit',
             total_investment = total_investment',
             overall_payback = overall_payback',
             overall_roi = overall_roi',
             owned_metrics = owned,
             rental_metrics = rental\<rparr>))"

section \<open>Sensitivity sweep\<close>

text \<open>\<^verbatim>\<open>numpy.linspace(start, stop, num)\<close> with its default \<^verbatim>\<open>endpoint=True\<close>
  (library code): a negative \<open>num\<close> raises \<open>ValueError\<close>; otherwise the result has
  \<open>num\<close> samples \<open>start + i * step\<close> with \<open>step = (stop - start) / (num - 1)\<close>,
  the last of which is set to \<open>stop\<close> when \<open>num > 1\<close>; for \<open>num = 1\<close> the only
  sample is \<open>start\<close>.\<close>

definition linspace :: "real \<Rightarrow> real \<Rightarrow> int \<Rightarrow> error + real list" where
  "linspace start stop n =
     (if n < 0 then Inl ValueError
      else
        let divisor = n - 1;
            delta = stop - start;
            y = map (\<lambda>i. if 0 < divisor then start + real i * (delta / real_of_int divisor)
                          else start + real i * delta) [0..<nat n]
        in Inr (if 1 < n then y[nat n - 1 := stop] else y))"

text \<open>A cell of a result row: a number or a payback value. A row is the dictionary
  \<^verbatim>\<open>{param_name: val, 'total_profit': ..., 'overall_roi': ..., 'overall_payback': ...}\<close>;
  as in a dictionary display, a later key overrides an equal earlier one.\<close>

datatype cell = CNum real | CPayback payback

type_synonym row = "string \<rightharpoonup> cell"

definition result_row :: "string \<Rightarrow> real \<Rightarrow> total_result \<Rightarrow> row" where
  "result_row param_name val metrics =
     [param_name \<mapsto> CNum val,
      ''total_profit'' \<mapsto> CNum (total_profit metrics),
      ''overall_roi'' \<mapsto> CNum (overall_roi metrics),
      ''overall_payback'' \<mapsto> CPayback (overall_payback metrics)]"

text \<open>\<^verbatim>\<open>self.params.get(param_name)\<close>.\<close>

definition params_get :: "model \<Rightarrow> string \<Rightarrow> pyval" where
  "params_get m param_name = (case params m param_name of None \<Rightarrow> PyNone | Some v \<Rightarrow> v)"

text \<open>The loop \<^verbatim>\<open>for val in values\<close> of \<^verbatim>\<open>sensitivity_analysis\<close>. The model object is
  shared and mutable, so the loop threads it and returns it with the result: an exception
  leaves the loop with the model as it is at that moment.

  The samples are \<^verbatim>\<open>numpy.float64\<close> scalars: they are passed on and written into
  \<^verbatim>\<open>params\<close> as \<open>NpNum\<close>.\<close>

fun sweep_loop ::
    "model \<Rightarrow> string \<Rightarrow> real list \<Rightarrow> row list \<Rightarrow> (error + row list) \<times> model" where
  "sweep_loop m param_name [] results = (Inr results, m)"
| "sweep_loop m param_name (val # values) results =
     (if param_name = ''occupancy_rate'' then
        (case calculate_total_metrics m (NpNum val) PyNone of
           Inl e \<Rightarrow> (Inl e, m)
         | Inr metrics \<Rightarrow>
             sweep_loop m param_name values (results @ [result_row param_name val metrics]))
      else if param_name = ''price_per_night'' then
        (case calculate_total_metrics m PyNone (NpNum val) of
           Inl e \<Rightarrow> (Inl e, m)
         | Inr metrics \<Rightarrow>
             sweep_loop m param_name values (results @ [result_row param_name val metrics]))
      else
        (let original_val = params_get m param_name;
             m1 = m\<lparr>params := (params m)(param_name \<mapsto> NpNum val)\<rparr>
         in case calculate_total_metrics m1 PyNone PyNone of
              Inl e \<Rightarrow> (Inl e, m1)
            | Inr metrics \<Rightarrow>
                let m2 = m1\<lparr>params := (params m1)(param_name \<mapsto> original_val)\<rparr>
                in sweep_loop m2 param_name values
                     (results @ [result_row param_name val metrics])))"

text \<open>\<^verbatim>\<open>sensitivity_analysis(param_name, min_val, max_val, steps=10)\<close>: the data frame
  is the list of its rows.\<close>

definition sensitivity_analysis ::
    "model \<Rightarrow> string \<Rightarrow> real \<Rightarrow> real \<Rightarrow> int \<Rightarrow> (error + row list) \<times> model" where
  "sensitivity_analysis m param_name min_val max_val steps =
     (case linspace min_val max_val steps of
        Inl e \<Rightarrow> (Inl e, m)
      | Inr values \<Rightarrow> sweep_loop m param_name values [])"

section \<open>Break-even occupancy\<close>

text \<open>The break-even block of tab 3 in \<^verbatim>\<open>main\<close> of \<^verbatim>\<open>streamlit_app.py\<close>, as a
  function of the model and of the three slider values it reads. The result is the
  variable \<^verbatim>\<open>breakeven_occupancy\<close>.\<close>

definition breakeven_occupancy :: "model \<Rightarrow> real \<Rightarrow> real \<Rightarrow> real \<Rightarrow> error + real" where
  "breakeven_occupancy m price_per_night owned_properties rental_properties =
     and_then (fixed_cost m ''owned'' ''operations_fixed'') (\<lambda>owned_operations_fixed.
     and_then (fixed_cost m ''owned'' ''utilities_fixed'') (\<lambda>owned_utilities_fixed.
     and_then (fixed_cost m ''owned'' ''insurance'') (\<lambda>owned_insurance.
     let fixed_cost_owned =
           (owned_operations_fixed + owned_utilities_fixed + owned_insurance)
             * owned_properties in
     and_then (fixed_cost m ''rental'' ''rent'') (\<lambda>rental_rent.
     and_then (fixed_cost m ''rental'' ''operations_fixed'') (\<lambda>rental_operations_fixed.
     and_then (fixed_cost m ''rental'' ''utilities_fixed'') (\<lambda>rental_utilities_fixed.
     and_then (fixed_cost m ''rental'' ''insurance'') (\<lambda>rental_insurance.
     let fixed_cost_rental =
           (rental_rent + rental_operations_fixed + rental_utilities_fixed + rental_insurance)
             * rental_properties;
         total_fixed_costs = fixed_cost_owned + fixed_cost_rental;
         total_properties = owned_properties + rental_properties;
         daily_revenue_potential = price_per_night * total_properties in
     and_then (py_div total_fixed_costs daily_revenue_potential) (\<lambda>breakeven_days.
     Inr ((breakeven_days / 365) * 100)))))))))"

text \<open>The break-even block of \<^verbatim>\<open>create_comprehensive_analysis\<close> in
  \<^verbatim>\<open>fujimi_business_model.py\<close>: the same computation with the property counts 15 and 15,
  the price 25000 and the total 30 written as constants. The divisor is the constant
  750000, so the division cannot raise.\<close>

definition comprehensive_breakeven_occupancy :: "model \<Rightarrow> error + real" where
  "comprehensive_breakeven_occupancy m =
     and_then (fixed_cost m ''owned'' ''operations_fixed'') (\<lambda>owned_operations_fixed.
     and_then (fixed_cost m ''owned'' ''utilities_fixed'') (\<lambda>owned_utilities_fixed.
     and_then (fixed_cost m ''owned'' ''insurance'') (\<lambda>owned_insurance.
     let fixed_cost_total0 =
           (owned_operations_fixed + owned_utilities_fixed + owned_insurance) * 15 in
     and_then (fixed_cost m ''rental'' ''rent'') (\<lambda>rental_rent.
     and_then (fixed_cost m ''rental'' ''operations_fixed'') (\<lambda>rental_operations_fixed.
     and_then (fixed_cost m ''rental'' ''utilities_fixed'') (\<lambda>rental_utilities_fixed.
     and_then (fixed_cost m ''rental'' ''insurance'') (\<lambda>rental_insurance.
     let fixed_cost_total =
           fixed_cost_total0
             + (rental_rent + rental_operations_fixed + rental_utilities_fixed
                  + rental_insurance) * 15;
         total_fixed_costs = fixed_cost_total;
         price_per_night = 25000;
         properties_total = 30;
         daily_revenue_potential = price_per_night * properties_total;
         breakeven_days = total_fixed_costs / daily_revenue_potential
     in Inr ((breakeven_days / 365) * 100))))))))"

section \<open>Cost what-if scenarios of the web page\<close>

text \<open>\<^verbatim>\<open>model.fixed_costs\<close> and \<^verbatim>\<open>model.variable_costs\<close> are dictionaries of dictionaries, and
  the what-if block of tab 2 in \<^verbatim>\<open>main\<close> of \<^verbatim>\<open>streamlit_app.py\<close> saves them with
  \<^verbatim>\<open>dict.copy()\<close>, which is shallow: the copy is a new outer dictionary that holds the same
  inner dictionary objects. To follow that block the inner dictionaries are objects in a
  store, and an outer dictionary maps a class name to the address of its inner
  dictionary. An outer dictionary is never updated in place, so it is a value.\<close>

type_synonym addr = nat

record app_model =
  a_params :: "string \<rightharpoonup> pyval"
  a_fixed_costs :: "string \<rightharpoonup> addr"
  a_variable_costs :: "string \<rightharpoonup> addr"
  fixed_store :: "addr \<rightharpoonup> (string \<rightharpoonup> real)"
  variable_store :: "addr \<rightharpoonup> (string \<times> real) list"

text \<open>The model as the engine reads it: every address replaced by the object it holds.
  (An address always holds an object in Python; an empty one reads as a missing key.)\<close>

definition model_of :: "app_model \<Rightarrow> model" where
  "model_of a =
     \<lparr>params = a_params a,
      fixed_costs =
        (\<lambda>c. case a_fixed_costs a c of None \<Rightarrow> None | Some p \<Rightarrow> fixed_store a p),
      variable_costs =
        (\<lambda>c. case a_variable_costs a c of None \<Rightarrow> None | Some p \<Rightarrow> variable_store a p)\<rparr>"

text \<open>\<^verbatim>\<open>FujimBusinessModel.__init__\<close> with its four inner dictionaries as objects.\<close>

definition init_app_model :: app_model where
  "init_app_model =
     \<lparr>a_params = params init_model,
      a_fixed_costs = [''owned'' \<mapsto> 0, ''rental'' \<mapsto> 1],
      a_variable_costs = [''owned'' \<mapsto> 0, ''rental'' \<mapsto> 1],
      fixed_store = [
        0 \<mapsto> [
          ''operations_fixed'' \<mapsto> 400000,
          ''utilities_fixed'' \<mapsto> 80000,
          ''insurance'' \<mapsto> 60000],
        1 \<mapsto> [
          ''rent'' \<mapsto> 840000,
          ''operations_fixed'' \<mapsto> 900000,
          ''utilities_fixed'' \<mapsto> 60000,
          ''insurance'' \<mapsto> 40000]],
      variable_store = [
        0 \<mapsto> [
          (''operations_variable'', 240000 * 0.33),
          (''utilities_variable'', 68000 * 0.33),
          (''cleaning_maintenance'', 120000 * 0.33)],
        1 \<mapsto> [
          (''operations_variable'', 594000 * 0.33),
          (''utilities_variable'', 55000 * 0.33),
          (''cleaning_maintenance'', 150000 * 0.33)]]\<rparr>"

text \<open>\<^verbatim>\<open>d[k] = v\<close> on a dictionary kept in insertion order: an existing key keeps its
  place.\<close>

fun set_item :: "string \<Rightarrow> real \<Rightarrow> (string \<times> real) list \<Rightarrow> (string \<times> real) list" where
  "set_item k v [] = [(k, v)]"
| "set_item k v ((k', v') # items) =
     (if k' = k then (k, v) # items else (k', v') # set_item k v items)"

text \<open>\<^verbatim>\<open>model.fixed_costs[c][k] *= f\<close> and \<^verbatim>\<open>model.variable_costs[c][k] *= f\<close>: the
  inner dictionary object is updated in place.\<close>

definition scale_fixed :: "string \<Rightarrow> string \<Rightarrow> real \<Rightarrow> app_model \<Rightarrow> error + app_model" where
  "scale_fixed c k f a =
     and_then (subscript (a_fixed_costs a) c) (\<lambda>p.
     and_then (subscript (fixed_store a) p) (\<lambda>d.
     and_then (subscript d k) (\<lambda>v.
     Inr (a\<lparr>fixed_store := (fixed_store a)(p \<mapsto> d(k \<mapsto> v * f))\<rparr>))))"

definition scale_variable :: "string \<Rightarrow> string \<Rightarrow> real \<Rightarrow> app_model \<Rightarrow> error + app_model" where
  "scale_variable c k f a =
     and_then (subscript (a_variable_costs a) c) (\<lambda>p.
     and_then (subscript (variable_store a) p) (\<lambda>d.
     and_then (subscript (map_of d) k) (\<lambda>v.
     Inr (a\<lparr>variable_store := (variable_store a)(p \<mapsto> set_item k (v * f) d)\<rparr>))))"

text \<open>Sequencing in the block: a statement that raises leaves the block with the model as
  it is at that moment.\<close>

definition step ::
    "app_model \<Rightarrow> error + 'a \<Rightarrow> ('a \<Rightarrow> (error + 'b) \<times> app_model) \<Rightarrow> (error + 'b) \<times> app_model"
  where
  "step a r k = (case r of Inl e \<Rightarrow> (Inl e, a) | Inr x \<Rightarrow> k x)"

text \<open>The values the block computes.\<close>

record what_if_result =
  cost_risk_metrics :: total_result
  cost_profit_impact :: real
  cost_roi_impact :: real
  cost_savings_metrics :: total_result
  cost_savings_impact :: real
  cost_savings_roi_impact :: real

text \<open>Lines 361 to 399 of \<^verbatim>\<open>streamlit_app.py\<close>, from the comment ``temporarily modify the
  model'' to the comment ``restore the original values'', as a function of the model,
  of the two slider values and of \<^verbatim>\<open>base_metrics\<close>. The two saved dictionaries are the
  outer dictionaries, which hold addresses: assigning them back restores no inner
  dictionary.\<close>

definition cost_what_if ::
    "app_model \<Rightarrow> pyval \<Rightarrow> pyval \<Rightarrow> total_result \<Rightarrow> (error + what_if_result) \<times> app_model"
  where
  "cost_what_if a0 occupancy_rate price_per_night base_metrics =
     (let original_fixed_costs = a_fixed_costs a0;
          original_variable_costs = a_variable_costs a0 in
      step a0 (scale_fixed ''owned'' ''utilities_fixed'' 1.4 a0) (\<lambda>a1.
      step a1 (scale_fixed ''rental'' ''utilities_fixed'' 1.4 a1) (\<lambda>a2.
      step a2 (scale_variable ''owned'' ''utilities_variable'' 1.5 a2) (\<lambda>a3.
      step a3 (scale_variable ''rental'' ''utilities_variable'' 1.5 a3) (\<lambda>a4.
      step a4 (scale_fixed ''owned'' ''operations_fixed'' 1.25 a4) (\<lambda>a5.
      step a5 (scale_fixed ''rental'' ''operations_fixed'' 1.25 a5) (\<lambda>a6.
      step a6 (scale_variable ''owned'' ''operations_variable'' 1.3 a6) (\<lambda>a7.
      step a7 (scale_variable ''rental'' ''operations_variable'' 1.3 a7) (\<lambda>a8.
      step a8 (scale_fixed ''rental'' ''rent'' 1.15 a8) (\<lambda>a9.
      step a9 (calculate_total_metrics (model_of a9) occupancy_rate price_per_night)
        (\<lambda>cost_risk.
      step a9 (py_div (total_profit cost_risk - total_profit base_metrics)
                 (total_profit base_metrics)) (\<lambda>risk_quotient.
      let cost_profit_impact' = risk_quotient * 100;
          cost_roi_impact' = overall_roi cost_risk - overall_roi base_metrics;
          b0 = a9\<lparr>a_fixed_costs := original_fixed_costs,
                  a_variable_costs := original_variable_costs\<rparr> in
      step b0 (scale_fixed ''owned'' ''utilities_fixed'' 0.85 b0) (\<lambda>b1.
      step b1 (scale_fixed ''rental'' ''utilities_fixed'' 0.85 b1) (\<lambda>b2.
      step b2 (scale_variable ''owned'' ''utilities_variable'' 0.8 b2) (\<lambda>b3.
      step b3 (scale_variable ''rental'' ''utilities_variable'' 0.8 b3) (\<lambda>b4.
      step b4 (scale_fixed ''owned'' ''operations_fixed'' 0.92 b4) (\<lambda>b5.
      step b5 (scale_fixed ''rental'' ''operations_fixed'' 0.92 b5) (\<lambda>b6.
      step b6 (scale_variable ''owned'' ''operations_variable'' 0.9 b6) (\<lambda>b7.
      step b7 (scale_variable ''rental'' ''operations_variable'' 0.9 b7) (\<lambda>b8.
      step b8 (scale_fixed ''rental'' ''rent'' 0.97 b8) (\<lambda>b9.
      step b9 (calculate_total_metrics (model_of b9) occupancy_rate price_per_night)
        (\<lambda>cost_savings.
      step b9 (py_div (total_profit cost_savings - total_profit base_metrics)
                 (total_profit base_metrics)) (\<lambda>savings_quotient.
      let cost_savings_impact' = savings_quotient * 100;
          cost_savings_roi_impact' = overall_roi cost_savings - overall_roi base_metrics;
          c0 = b9\<lparr>a_fixed_costs := original_fixed_costs,
                  a_variable_costs := original_variable_costs\<rparr>
      in (Inr \<lparr>cost_risk_metrics = cost_risk,
                cost_profit_impact = cost_profit_impact',
                cost_roi_impact = cost_roi_impact',
                cost_savings_metrics = cost_savings,
                cost_savings_impact = cost_savings_impact',
                cost_savings_roi_impact = cost_savings_roi_impact'\<rparr>, c0)
      )))))))))))))))))))))))"

subsection \<open>Notation for concrete inputs and results\<close>

text \<open>Notation for the results of evaluating a freshly constructed model with all
  arguments defaulted; the lemmas \<open>owned_baseline\<close>, \<open>rental_baseline\<close> and
  \<open>total_baseline\<close> below prove that the engine returns them.\<close>

abbreviation baseline_owned :: owned_result where
  "baseline_owned \<equiv>
     \<lparr>o_annual_revenue = 45168750, o_noi = 34950150, o_total_investment = 283500000,
      o_payback_period = Finite (210000 / 25889), o_roi = 25889 / 2100,
      o_total_costs = Fin 50718600, o_operating_costs = 10218600,
      o_depreciation = Fin 40500000, o_variable_costs = 2118600\<rparr>"

abbreviation baseline_rental :: rental_result where
  "baseline_rental \<equiv>
     \<lparr>r_annual_revenue = 45168750, r_operating_profit = 13613700,
      r_total_investment = 82500000,
      r_payback_period = Finite (275000 / 45379), r_roi = 45379 / 2750,
      r_total_costs = 31555050, r_fixed_costs = 27600000,
      r_variable_costs = 3955050\<rparr>"

abbreviation baseline_total :: total_result where
  "baseline_total \<equiv>
     \<lparr>total_revenue = 90337500, total_profit = 48563850, total_investment = 366000000,
      overall_payback = Finite (2440000 / 323759), overall_roi = 323759 / 24400,
      owned_metrics = baseline_owned, rental_metrics = baseline_rental\<rparr>"

text \<open>Notation for a model with a negative depreciation horizon and a negative rental
  investment, used as a concrete invalid input.\<close>

abbreviation negative_model :: model where
  "negative_model \<equiv>
     init_model\<lparr>params := (params init_model)
       (''depreciation_years'' \<mapsto> PyNum (- 7),
        ''rental_initial_investment'' \<mapsto> PyNum (- 5500000))\<rparr>"

text \<open>Notation for three further results: the rental class of a freshly constructed model
  at occupancy 0.15, its owned class with a property count of \<open>-1\<close>, and the portfolio
  of \<open>negative_model\<close>, each with the other arguments defaulted.\<close>

abbreviation low_occupancy_rental :: rental_result where
  "low_occupancy_rental \<equiv>
     \<lparr>r_annual_revenue = 20531250, r_operating_profit = - 8866500,
      r_total_investment = 82500000, r_payback_period = PosInf,
      r_roi = - (5911 / 550), r_total_costs = 29397750,
      r_fixed_costs = 27600000, r_variable_costs = 1797750\<rparr>"

abbreviation negative_count_owned :: owned_result where
  "negative_count_owned \<equiv>
     \<lparr>o_annual_revenue = - 3011250, o_noi = - 2330010,
      o_total_investment = - 18900000, o_payback_period = PosInf,
      o_roi = 0, o_total_costs = Fin (- 3381240), o_operating_costs = - 681240,
      o_depreciation = Fin (- 2700000), o_variable_costs = - 141240\<rparr>"

abbreviation negative_model_result :: total_result where
  "negative_model_result \<equiv>
     \<lparr>total_revenue = 90337500, total_profit = 48563850, total_investment = 201000000,
      overall_payback = Finite (1340000 / 323759), overall_roi = 323759 / 13400,
      owned_metrics =
        \<lparr>o_annual_revenue = 45168750, o_noi = 34950150,
         o_total_investment = 283500000,
         o_payback_period = Finite (210000 / 25889), o_roi = 25889 / 2100,
         o_total_costs = Fin (- 30281400), o_operating_costs = 10218600,
         o_depreciation = Fin (- 40500000), o_variable_costs = 2118600\<rparr>,
      rental_metrics =
        \<lparr>r_annual_revenue = 45168750, r_operating_profit = 13613700,
         r_total_investment = - 82500000,
         r_payback_period = Finite (- (275000 / 45379)), r_roi = 0,
         r_total_costs = 31555050, r_fixed_costs = 27600000,
         r_variable_costs = 3955050\<rparr>\<rparr>"

text \<open>Notation for the freshly constructed model with \<^verbatim>\<open>depreciation_years = 0\<close> as a Python
  number, for the owned result when that entry is the numpy sample 0, and for the
  portfolio at the numpy sample 0.15 of the occupancy rate.\<close>

abbreviation zero_years_model :: model where
  "zero_years_model \<equiv>
     init_model\<lparr>params := (params init_model)(''depreciation_years'' \<mapsto> PyNum 0)\<rparr>"

abbreviation zero_years_owned :: owned_result where
  "zero_years_owned \<equiv>
     \<lparr>o_annual_revenue = 45168750, o_noi = 34950150, o_total_investment = 283500000,
      o_payback_period = Finite (210000 / 25889), o_roi = 25889 / 2100,
      o_total_costs = NonFinite, o_operating_costs = 10218600,
      o_depreciation = NonFinite, o_variable_costs = 2118600\<rparr>"

abbreviation low_occupancy_total :: total_result where
  "low_occupancy_total \<equiv>
     \<lparr>total_revenue = 41062500, total_profit = 2601750, total_investment = 366000000,
      overall_payback = Finite (488000 / 3469), overall_roi = 3469 / 4880,
      owned_metrics =
        \<lparr>o_annual_revenue = 20531250, o_noi = 11468250,
         o_total_investment = 283500000,
         o_payback_period = Finite (42000 / 1699), o_roi = 1699 / 420,
         o_total_costs = Fin 49563000, o_operating_costs = 9063000,
         o_depreciation = Fin 40500000, o_variable_costs = 963000\<rparr>,
      rental_metrics = low_occupancy_rental\<rparr>"

text \<open>Notation for the run of the cost what-if block on the freshly constructed model at
  the default slider values: the values it computes and the model it leaves.\<close>

abbreviation what_if_values :: what_if_result where
  "what_if_values \<equiv>
     \<lparr>cost_risk_metrics =
        \<lparr>total_revenue = 90337500, total_profit = 39415935,
         total_investment = 366000000,
         overall_payback = Finite (24400000 / 2627729),
         overall_roi = 2627729 / 244000,
         owned_metrics =
           \<lparr>o_annual_revenue = 45168750, o_noi = 32445450,
            o_total_investment = 283500000,
            o_payback_period = Finite (630000 / 72101),
            o_roi = 72101 / 6300, o_total_costs = Fin 53223300,
            o_operating_costs = 12723300, o_depreciation = Fin 40500000,
            o_variable_costs = 2643300\<rparr>,
         rental_metrics =
           \<lparr>r_annual_revenue = 45168750, r_operating_profit = 6970485,
            r_total_investment = 82500000,
            r_payback_period = Finite (5500000 / 464699),
            r_roi = 464699 / 55000, r_total_costs = 38198265,
            r_fixed_costs = 33225000, r_variable_costs = 4973265\<rparr>\<rparr>,
      cost_profit_impact = - (6098610 / 323759),
      cost_roi_impact = - (609861 / 244000),
      cost_savings_metrics =
        \<lparr>total_revenue = 90337500, total_profit = 42960969,
         total_investment = 366000000,
         overall_payback = Finite (122000000 / 14320323),
         overall_roi = 14320323 / 1220000,
         owned_metrics =
           \<lparr>o_annual_revenue = 45168750, o_noi = 33552870,
            o_total_investment = 283500000,
            o_payback_period = Finite (9450000 / 1118429),
            o_roi = 1118429 / 94500, o_total_costs = Fin 52115880,
            o_operating_costs = 11615880, o_depreciation = Fin 40500000,
            o_variable_costs = 2387880\<rparr>,
         rental_metrics =
           \<lparr>r_annual_revenue = 45168750, r_operating_profit = 9408099,
            r_total_investment = 82500000,
            r_payback_period = Finite (27500000 / 3136033),
            r_roi = 3136033 / 275000, r_total_costs = 35760651,
            r_fixed_costs = 31251300, r_variable_costs = 4509351\<rparr>\<rparr>,
      cost_savings_impact = - (3735254 / 323759),
      cost_savings_roi_impact = - (1867627 / 1220000)\<rparr>"

abbreviation what_if_final :: app_model where
  "what_if_final \<equiv>
     init_app_model
       \<lparr>fixed_store := [
          0 \<mapsto> [
            ''operations_fixed'' \<mapsto> 460000,
            ''utilities_fixed'' \<mapsto> 95200,
            ''insurance'' \<mapsto> 60000],
          1 \<mapsto> [
            ''rent'' \<mapsto> 937020,
            ''operations_fixed'' \<mapsto> 1035000,
            ''utilities_fixed'' \<mapsto> 71400,
            ''insurance'' \<mapsto> 40000]],
        variable_store := [
          0 \<mapsto> [
            (''operations_variable'', 92664),
            (''utilities_variable'', 26928),
            (''cleaning_maintenance'', 39600)],
          1 \<mapsto> [
            (''operations_variable'', 1146717 / 5),
            (''utilities_variable'', 21780),
            (''cleaning_maintenance'', 49500)]]\<rparr>"

section \<open>Properties\<close>

subsection \<open>Sequencing\<close>

lemma and_then_Inr [simp]: "and_then (Inr a) f = f a"
  by (simp add: and_then_def)

lemma and_then_Inl [simp]: "and_then (Inl e) f = Inl e"
  by (simp add: and_then_def)

lemma and_then_eq_Inr:
  "and_then x f = Inr y \<longleftrightarrow> (\<exists>a. x = Inr a \<and> f a = Inr y)"
  by (cases x) simp_all

subsection \<open>Annual revenue and variable costs\<close>

text \<open>
  Claim C1. For every occupancy rate, nightly price and property count, the annual
  revenue computed by the engine is the product of the occupancy rate, the nightly price,
  the fixed 365 days of a year and the property count.
\<close>

theorem annual_revenue_formula:
  "calculate_annual_revenue occupancy_rate price_per_night num_properties =
     occupancy_rate * price_per_night * 365 * num_properties"
  by (simp add: calculate_annual_revenue_def)

text \<open>The definitions of the Python primitives and of the two cost and revenue
  functions, unfolded when the engine is evaluated at a concrete input.\<close>

lemmas engine_defs =
  or_param_def truthy_def subscript_def num_def is_numpy_def fixed_cost_def param_num_def
  py_div_def true_div_def add_fvalue_def calculate_variable_costs_def
  calculate_annual_revenue_def

lemma fold_variable_costs:
  "fold (\<lambda>(cost_type, base_cost) total. total + base_cost * f) items acc =
     acc + (\<Sum>(cost_type, base_cost)\<leftarrow>items. base_cost * f)"
  by (induction items arbitrary: acc) (auto simp: algebra_simps)

lemma calculate_variable_costs_value:
  "variable_costs m property_type = Some items \<Longrightarrow>
   calculate_variable_costs m r property_type n =
     Inr (n * (\<Sum>(cost_type, base_cost)\<leftarrow>items. base_cost * r / 0.33))"
  by (simp add: calculate_variable_costs_def subscript_def fold_variable_costs Let_def)

lemma sum_list_scale:
  "(\<Sum>(cost_type, base_cost)\<leftarrow>items. base_cost * (c * r) / d) =
     c * (\<Sum>(cost_type, base_cost)\<leftarrow>items. base_cost * r / (d::real))"
  by (induction items) (auto simp: algebra_simps)

lemma sum_list_zero:
  "(\<Sum>(cost_type, base_cost)\<leftarrow>items. (0::real)) = 0"
  by (induction items) auto

text \<open>
  Claim C2. The variable cost of a class at occupancy rate \<open>r\<close> is the property count
  times the sum over the cost items of \<open>baseline * r / 0.33\<close>, without floor or cap;
  hence the cost at \<open>2 * r\<close> is exactly twice the cost at \<open>r\<close>, and the cost at
  occupancy 0 is 0.
\<close>

theorem variable_costs_linear:
  assumes "variable_costs m property_type = Some items"
  shows "calculate_variable_costs m r property_type n =
           Inr (n * (\<Sum>(cost_type, base_cost)\<leftarrow>items. base_cost * r / 0.33))
       \<and> calculate_variable_costs m (2 * r) property_type n =
           Inr (2 * (n * (\<Sum>(cost_type, base_cost)\<leftarrow>items. base_cost * r / 0.33)))
       \<and> calculate_variable_costs m 0 property_type n = Inr 0"
proof -
  have v: "calculate_variable_costs m x property_type n =
      Inr (n * (\<Sum>(cost_type, base_cost)\<leftarrow>items. base_cost * x / 0.33))" for x
    by (rule calculate_variable_costs_value [OF assms])
  have double: "(\<Sum>(cost_type, base_cost)\<leftarrow>items. base_cost * (2 * r) / 0.33) =
      2 * (\<Sum>(cost_type, base_cost)\<leftarrow>items. base_cost * r / 0.33)"
    by (rule sum_list_scale)
  have zero: "(\<Sum>(cost_type, base_cost)\<leftarrow>items. base_cost * 0 / 0.33) = (0::real)"
    by (simp add: sum_list_zero)
  have "calculate_variable_costs m (2 * r) property_type n =
      Inr (2 * (n * (\<Sum>(cost_type, base_cost)\<leftarrow>items. base_cost * r / 0.33)))"
    unfolding v double by (simp only: mult.left_commute)
  moreover have "calculate_variable_costs m 0 property_type n = Inr 0"
    unfolding v zero by simp
  ultimately show ?thesis
    using v [of r] by blast
qed

theorem variable_costs_linear_witness:
  "calculate_variable_costs init_model 0.25 ''owned'' 15 = Inr 1605000
   \<and> calculate_variable_costs init_model 0.5 ''owned'' 15 = Inr 3210000
   \<and> calculate_variable_costs init_model 0 ''owned'' 15 = Inr 0"
proof -
  have h: "variable_costs init_model ''owned'' = Some [
         (''operations_variable'', 240000 * 0.33),
         (''utilities_variable'', 68000 * 0.33),
         (''cleaning_maintenance'', 120000 * 0.33)]"
    by (simp add: init_model_def)
  show ?thesis
    using variable_costs_linear [OF h, of "0.25" 15] by simp
qed

subsection \<open>Payback, ROI and aggregation\<close>

lemma owned_result_rules:
  "calculate_owned_property_metrics m occ price n = Inr ow \<Longrightarrow>
     o_payback_period ow =
       (if 0 < o_noi ow then Finite (o_total_investment ow / o_noi ow) else PosInf)
   \<and> o_roi ow =
       (if 0 < o_total_investment ow then (o_noi ow / o_total_investment ow) * 100 else 0)"
  by (auto simp add: calculate_owned_property_metrics_def and_then_eq_Inr Let_def)

lemma rental_result_rules:
  "calculate_rental_property_metrics m occ price n = Inr re \<Longrightarrow>
     r_payback_period re =
       (if 0 < r_operating_profit re
        then Finite (r_total_investment re / r_operating_profit re) else PosInf)
   \<and> r_roi re =
       (if 0 < r_total_investment re
        then (r_operating_profit re / r_total_investment re) * 100 else 0)"
  by (auto simp add: calculate_rental_property_metrics_def and_then_eq_Inr Let_def)

lemma total_result_rules:
  "calculate_total_metrics m occ price = Inr t \<Longrightarrow>
     calculate_owned_property_metrics m occ price PyNone = Inr (owned_metrics t) \<and>
     calculate_rental_property_metrics m occ price PyNone = Inr (rental_metrics t) \<and>
     total_revenue t =
       o_annual_revenue (owned_metrics t) + r_annual_revenue (rental_metrics t) \<and>
     total_profit t = o_noi (owned_metrics t) + r_operating_profit (rental_metrics t) \<and>
     total_investment t =
       o_total_investment (owned_metrics t) + r_total_investment (rental_metrics t) \<and>
     overall_payback t =
       (if 0 < total_profit t then Finite (total_investment t / total_profit t) else PosInf) \<and>
     overall_roi t =
       (if 0 < total_investment t then (total_profit t / total_investment t) * 100 else 0)"
  by (auto simp add: calculate_total_metrics_def and_then_eq_Inr Let_def)

lemma owned_baseline:
  "calculate_owned_property_metrics init_model PyNone PyNone PyNone = Inr baseline_owned"
  by (simp add: calculate_owned_property_metrics_def init_model_def engine_defs Let_def)

lemma rental_baseline:
  "calculate_rental_property_metrics init_model PyNone PyNone PyNone = Inr baseline_rental"
  by (simp add: calculate_rental_property_metrics_def init_model_def engine_defs Let_def)

lemma total_baseline:
  "calculate_total_metrics init_model PyNone PyNone = Inr baseline_total"
  by (simp add: calculate_total_metrics_def owned_baseline rental_baseline Let_def)

lemma rental_low_occupancy:
  "calculate_rental_property_metrics init_model (PyNum 0.15) PyNone PyNone =
     Inr low_occupancy_rental"
  by (simp add: calculate_rental_property_metrics_def init_model_def engine_defs Let_def)

text \<open>
  Claim C3. For the owned class, the rental class and the portfolio, the payback period
  is the total investment divided by the operating income when that income is positive,
  and the unbounded sentinel \<open>PosInf\<close> otherwise: a zero or negative income never
  gives a finite or negative payback.
\<close>

theorem payback_rule:
  "(calculate_owned_property_metrics m occ price n = Inr ow \<longrightarrow>
      o_payback_period ow =
        (if 0 < o_noi ow then Finite (o_total_investment ow / o_noi ow) else PosInf))
   \<and> (calculate_rental_property_metrics m occ price n = Inr re \<longrightarrow>
      r_payback_period re =
        (if 0 < r_operating_profit re
         then Finite (r_total_investment re / r_operating_profit re) else PosInf))
   \<and> (calculate_total_metrics m occ price = Inr t \<longrightarrow>
      overall_payback t =
        (if 0 < total_profit t then Finite (total_investment t / total_profit t) else PosInf))"
  using owned_result_rules rental_result_rules total_result_rules by blast

theorem payback_rule_witness:
  "calculate_owned_property_metrics init_model PyNone PyNone PyNone = Inr baseline_owned
   \<and> o_payback_period baseline_owned = Finite (283500000 / 34950150)
   \<and> calculate_rental_property_metrics init_model (PyNum 0.15) PyNone PyNone =
       Inr low_occupancy_rental
   \<and> r_operating_profit low_occupancy_rental < 0
   \<and> r_payback_period low_occupancy_rental = PosInf
   \<and> calculate_total_metrics init_model PyNone PyNone = Inr baseline_total
   \<and> overall_payback baseline_total = Finite (366000000 / 48563850)"
  using payback_rule [of init_model PyNone PyNone PyNone baseline_owned baseline_rental
      baseline_total]
    payback_rule [of init_model "PyNum 0.15" PyNone PyNone _ low_occupancy_rental]
    owned_baseline rental_low_occupancy total_baseline
  by simp

text \<open>
  Claim C4. The portfolio figures are sums of the class figures: total revenue is the sum
  of the two class revenues, total operating income is owned NOI plus rental operating
  profit, total investment is the sum of the class investments; the overall ROI and the
  overall payback apply the per-class rules to these aggregates.
\<close>

theorem portfolio_aggregation:
  assumes "calculate_total_metrics m occ price = Inr t"
  shows "calculate_owned_property_metrics m occ price PyNone = Inr (owned_metrics t)
     \<and> calculate_rental_property_metrics m occ price PyNone = Inr (rental_metrics t)
     \<and> total_revenue t =
         o_annual_revenue (owned_metrics t) + r_annual_revenue (rental_metrics t)
     \<and> total_profit t = o_noi (owned_metrics t) + r_operating_profit (rental_metrics t)
     \<and> total_investment t =
         o_total_investment (owned_metrics t) + r_total_investment (rental_metrics t)
     \<and> overall_roi t =
         (if 0 < total_investment t then (total_profit t / total_investment t) * 100 else 0)
     \<and> overall_payback t =
         (if 0 < total_profit t then Finite (total_investment t / total_profit t)
          else PosInf)"
  using total_result_rules [OF assms] by simp

theorem portfolio_aggregation_witness:
  "calculate_total_metrics init_model PyNone PyNone = Inr baseline_total
   \<and> calculate_owned_property_metrics init_model PyNone PyNone PyNone = Inr baseline_owned
   \<and> calculate_rental_property_metrics init_model PyNone PyNone PyNone = Inr baseline_rental
   \<and> total_revenue baseline_total =
       o_annual_revenue baseline_owned + r_annual_revenue baseline_rental
   \<and> total_profit baseline_total = o_noi baseline_owned + r_operating_profit baseline_rental
   \<and> total_investment baseline_total =
       o_total_investment baseline_owned + r_total_investment baseline_rental
   \<and> overall_roi baseline_total = (48563850 / 366000000) * 100
   \<and> overall_payback baseline_total = Finite (366000000 / 48563850)"
  using portfolio_aggregation [OF total_baseline] total_baseline by simp

text \<open>
  Claim C9 states that ROI is 0 when the total investment equals 0 and is
  \<open>income / investment * 100\<close> otherwise. The code guards with
  \<^verbatim>\<open>total_investment > 0\<close>: with a property count of \<open>-1\<close> the owned total investment
  is \<open>-18900000\<close>, not 0, and the ROI is 0 instead of the quotient.
\<close>

theorem roi_rule_counterexample:
  "calculate_owned_property_metrics init_model PyNone PyNone (PyNum (- 1)) =
     Inr negative_count_owned
   \<and> o_total_investment negative_count_owned \<noteq> 0
   \<and> o_roi negative_count_owned = 0
   \<and> o_roi negative_count_owned \<noteq>
       (o_noi negative_count_owned / o_total_investment negative_count_owned) * 100"
  by (simp add: calculate_owned_property_metrics_def init_model_def engine_defs Let_def)

text \<open>
  Claim C9, amended. For the owned class, the rental class and the portfolio, the ROI is
  \<open>income / investment * 100\<close> when the total investment is positive and 0 otherwise
  (for a zero as well as for a negative total investment).
\<close>

theorem roi_rule:
  "(calculate_owned_property_metrics m occ price n = Inr ow \<longrightarrow>
      o_roi ow =
        (if 0 < o_total_investment ow then (o_noi ow / o_total_investment ow) * 100 else 0))
   \<and> (calculate_rental_property_metrics m occ price n = Inr re \<longrightarrow>
      r_roi re =
        (if 0 < r_total_investment re
         then (r_operating_profit re / r_total_investment re) * 100 else 0))
   \<and> (calculate_total_metrics m occ price = Inr t \<longrightarrow>
      overall_roi t =
        (if 0 < total_investment t then (total_profit t / total_investment t) * 100 else 0))"
  using owned_result_rules rental_result_rules total_result_rules by blast

theorem roi_rule_witness:
  "calculate_owned_property_metrics init_model PyNone PyNone PyNone = Inr baseline_owned
   \<and> o_roi baseline_owned = (34950150 / 283500000) * 100
   \<and> calculate_rental_property_metrics init_model PyNone PyNone PyNone = Inr baseline_rental
   \<and> r_roi baseline_rental = (13613700 / 82500000) * 100
   \<and> calculate_total_metrics init_model PyNone PyNone = Inr baseline_total
   \<and> overall_roi baseline_total = (48563850 / 366000000) * 100"
  using roi_rule [of init_model PyNone PyNone PyNone baseline_owned baseline_rental
      baseline_total]
    owned_baseline rental_baseline total_baseline
  by simp

subsection \<open>Arguments that are zero\<close>

lemma or_param_zero:
  "params m k = Some d \<Longrightarrow> or_param (PyNum 0) m k = or_param d m k"
  by (simp add: or_param_def truthy_def subscript_def)

text \<open>
  Claim C10. An argument 0 for the occupancy rate, the nightly price or the property count
  of a per-class evaluation is replaced by the entry of \<^verbatim>\<open>params\<close> for it (0.33, 25000
  and 15 in a freshly constructed model): the result is the one computed from that
  default.
\<close>

theorem zero_argument_replaced_by_default:
  assumes "params m ''base_occupancy_rate'' = Some d_occ"
    and "params m ''average_price_per_night'' = Some d_price"
    and "params m ''owned_properties'' = Some d_owned"
    and "params m ''rental_properties'' = Some d_rental"
  shows "calculate_owned_property_metrics m (PyNum 0) price n =
           calculate_owned_property_metrics m d_occ price n
       \<and> calculate_owned_property_metrics m occ (PyNum 0) n =
           calculate_owned_property_metrics m occ d_price n
       \<and> calculate_owned_property_metrics m occ price (PyNum 0) =
           calculate_owned_property_metrics m occ price d_owned
       \<and> calculate_rental_property_metrics m (PyNum 0) price n =
           calculate_rental_property_metrics m d_occ price n
       \<and> calculate_rental_property_metrics m occ (PyNum 0) n =
           calculate_rental_property_metrics m occ d_price n
       \<and> calculate_rental_property_metrics m occ price (PyNum 0) =
           calculate_rental_property_metrics m occ price d_rental"
  by (simp add: calculate_owned_property_metrics_def calculate_rental_property_metrics_def
      or_param_zero [OF assms(1)] or_param_zero [OF assms(2)] or_param_zero [OF assms(3)]
      or_param_zero [OF assms(4)])

lemma zero_arguments_baseline:
  "calculate_owned_property_metrics init_model (PyNum 0) (PyNum 0) (PyNum 0) =
       Inr baseline_owned
   \<and> calculate_rental_property_metrics init_model (PyNum 0) (PyNum 0) (PyNum 0) =
       Inr baseline_rental"
  by (simp add: calculate_owned_property_metrics_def calculate_rental_property_metrics_def
      init_model_def engine_defs Let_def)

theorem zero_argument_replaced_by_default_witness:
  "calculate_owned_property_metrics init_model (PyNum 0) PyNone PyNone =
     calculate_owned_property_metrics init_model (PyNum 0.33) PyNone PyNone
   \<and> calculate_owned_property_metrics init_model PyNone (PyNum 0) PyNone =
     calculate_owned_property_metrics init_model PyNone (PyNum 25000) PyNone
   \<and> calculate_owned_property_metrics init_model PyNone PyNone (PyNum 0) =
     calculate_owned_property_metrics init_model PyNone PyNone (PyNum 15)
   \<and> calculate_rental_property_metrics init_model (PyNum 0) PyNone PyNone =
     calculate_rental_property_metrics init_model (PyNum 0.33) PyNone PyNone
   \<and> calculate_rental_property_metrics init_model PyNone (PyNum 0) PyNone =
     calculate_rental_property_metrics init_model PyNone (PyNum 25000) PyNone
   \<and> calculate_rental_property_metrics init_model PyNone PyNone (PyNum 0) =
     calculate_rental_property_metrics init_model PyNone PyNone (PyNum 15)
   \<and> calculate_owned_property_metrics init_model (PyNum 0) (PyNum 0) (PyNum 0) =
     Inr baseline_owned
   \<and> calculate_rental_property_metrics init_model (PyNum 0) (PyNum 0) (PyNum 0) =
     Inr baseline_rental"
proof -
  have "params init_model ''base_occupancy_rate'' = Some (PyNum 0.33)"
    and "params init_model ''average_price_per_night'' = Some (PyNum 25000)"
    and "params init_model ''owned_properties'' = Some (PyNum 15)"
    and "params init_model ''rental_properties'' = Some (PyNum 15)"
    by (simp_all add: init_model_def)
  from zero_argument_replaced_by_default [OF this, of PyNone PyNone PyNone]
  show ?thesis using zero_arguments_baseline by simp
qed

subsection \<open>The concrete scenario\<close>

lemma total_scenario:
  "calculate_total_metrics init_model (PyNum 0.33) (PyNum 25000) = Inr baseline_total"
  by (simp add: calculate_total_metrics_def calculate_owned_property_metrics_def
      calculate_rental_property_metrics_def init_model_def engine_defs Let_def)

text \<open>
  Claim C6 expects an owned and a rental annual revenue of 45,151,875 and a total revenue
  of 90,303,750 for the occupancy rate 0.33, the price 25000 and 15 properties per class.
  The engine returns other values for this input.
\<close>

theorem concrete_scenario_revenue_counterexample:
  "calculate_annual_revenue 0.33 25000 15 \<noteq> 45151875
   \<and> calculate_total_metrics init_model (PyNum 0.33) (PyNum 25000) = Inr baseline_total
   \<and> o_annual_revenue (owned_metrics baseline_total) \<noteq> 45151875
   \<and> r_annual_revenue (rental_metrics baseline_total) \<noteq> 45151875
   \<and> total_revenue baseline_total \<noteq> 90303750"
  using total_scenario by (simp add: calculate_annual_revenue_def)

text \<open>
  Claim C6, amended. With the occupancy rate 0.33, the price 25000, 15 owned and 15 rental
  properties and the investments and depreciation years of the freshly constructed model,
  the owned and the rental annual revenue are \<open>0.33 * 25000 * 365 * 15 = 45,168,750\<close>
  each and the total revenue is 90,337,500.
\<close>

theorem concrete_scenario_revenue:
  "calculate_annual_revenue 0.33 25000 15 = 45168750
   \<and> calculate_total_metrics init_model (PyNum 0.33) (PyNum 25000) = Inr baseline_total
   \<and> o_annual_revenue (owned_metrics baseline_total) = 45168750
   \<and> r_annual_revenue (rental_metrics baseline_total) = 45168750
   \<and> total_revenue baseline_total = 90337500"
  using total_scenario by (simp add: calculate_annual_revenue_def)

subsection \<open>Break-even occupancy\<close>

lemma breakeven_algebra:
  "x / d / 365 * 100 = 100 * (x / (d * 365))" for x d :: real
  by simp

lemma breakeven_occupancy_value:
  assumes "fixed_costs m ''owned'' = Some fo"
    and "fo ''operations_fixed'' = Some o1" and "fo ''utilities_fixed'' = Some o2"
    and "fo ''insurance'' = Some o3"
    and "fixed_costs m ''rental'' = Some fr"
    and "fr ''rent'' = Some r1" and "fr ''operations_fixed'' = Some r2"
    and "fr ''utilities_fixed'' = Some r3" and "fr ''insurance'' = Some r4"
  shows "breakeven_occupancy m price owned rental =
           (if price * (owned + rental) = 0 then Inl ZeroDivisionError
            else Inr (100 * (((o1 + o2 + o3) * owned + (r1 + r2 + r3 + r4) * rental)
                               / (price * (owned + rental) * 365))))"
proof (cases "price * (owned + rental) = 0")
  case True
  with assms show ?thesis
    by (simp add: breakeven_occupancy_def fixed_cost_def subscript_def py_div_def Let_def)
next
  case False
  with assms have "breakeven_occupancy m price owned rental =
      Inr (((o1 + o2 + o3) * owned + (r1 + r2 + r3 + r4) * rental)
             / (price * (owned + rental)) / 365 * 100)"
    by (simp only: breakeven_occupancy_def fixed_cost_def subscript_def py_div_def Let_def
        and_then_Inr option.case if_not_P if_False)
  with False show ?thesis
    by (simp only: breakeven_algebra if_not_P if_False)
qed

lemma comprehensive_breakeven_occupancy_value:
  assumes "fixed_costs m ''owned'' = Some fo"
    and "fo ''operations_fixed'' = Some o1" and "fo ''utilities_fixed'' = Some o2"
    and "fo ''insurance'' = Some o3"
    and "fixed_costs m ''rental'' = Some fr"
    and "fr ''rent'' = Some r1" and "fr ''operations_fixed'' = Some r2"
    and "fr ''utilities_fixed'' = Some r3" and "fr ''insurance'' = Some r4"
  shows "comprehensive_breakeven_occupancy m =
           Inr (100 * (((o1 + o2 + o3) * 15 + (r1 + r2 + r3 + r4) * 15)
                               / (25000 * 30 * 365)))"
proof -
  have "comprehensive_breakeven_occupancy m =
           Inr (((o1 + o2 + o3) * 15 + (r1 + r2 + r3 + r4) * 15)
                               / (25000 * 30) / 365 * 100)"
    using assms
    by (simp only: comprehensive_breakeven_occupancy_def fixed_cost_def subscript_def Let_def
        and_then_Inr and_then_Inl option.case)
  then show ?thesis
    by (simp only: breakeven_algebra)
qed

lemma breakeven_frame:
  "breakeven_occupancy (m\<lparr>params := p, variable_costs := v\<rparr>) price owned rental =
     breakeven_occupancy m price owned rental"
  "comprehensive_breakeven_occupancy (m\<lparr>params := p, variable_costs := v\<rparr>) =
     comprehensive_breakeven_occupancy m"
  by (simp_all add: breakeven_occupancy_def comprehensive_breakeven_occupancy_def
      fixed_cost_def)

text \<open>
  Claim C5 states the break-even occupancy as the rate
  \<open>totalFixedCosts / (pricePerNight * totalPropertyCount * 365)\<close>. Both code paths
  multiply by 100: with the fixed costs of the freshly constructed model (35,700,000 for
  15 + 15 properties) and the price 25000 the code yields \<open>13.04...\<close>, not
  \<open>0.1304...\<close>.
\<close>

theorem breakeven_counterexample:
  "comprehensive_breakeven_occupancy init_model = Inr (100 * (35700000 / (25000 * 30 * 365)))
   \<and> comprehensive_breakeven_occupancy init_model \<noteq> Inr (35700000 / (25000 * 30 * 365))
   \<and> breakeven_occupancy init_model 25000 15 15 = Inr (100 * (35700000 / (25000 * 30 * 365)))
   \<and> breakeven_occupancy init_model 25000 15 15 \<noteq> Inr (35700000 / (25000 * 30 * 365))"
  by (simp add: breakeven_occupancy_def comprehensive_breakeven_occupancy_def
      fixed_cost_def subscript_def py_div_def Let_def init_model_def)

text \<open>
  Claim C5, amended. The break-even occupancy computed by the code is a percentage: 100
  times the total fixed costs divided by \<open>price * total property count * 365\<close>, where
  the total fixed costs are the fixed-cost entries of both classes at the given property
  counts. Depreciation and variable costs do not enter: the value is the same for every
  content of \<^verbatim>\<open>params\<close> and \<^verbatim>\<open>variable_costs\<close>. In
  \<^verbatim>\<open>create_comprehensive_analysis\<close> the counts are 15 and 15, the price is 25000 and
  the divisor is \<open>25000 * 30 * 365\<close>.
\<close>

theorem breakeven_formula:
  assumes "fixed_costs m ''owned'' = Some fo"
    and "fo ''operations_fixed'' = Some o1" and "fo ''utilities_fixed'' = Some o2"
    and "fo ''insurance'' = Some o3"
    and "fixed_costs m ''rental'' = Some fr"
    and "fr ''rent'' = Some r1" and "fr ''operations_fixed'' = Some r2"
    and "fr ''utilities_fixed'' = Some r3" and "fr ''insurance'' = Some r4"
    and "price * (owned + rental) \<noteq> 0"
  shows "breakeven_occupancy m price owned rental =
           Inr (100 * (((o1 + o2 + o3) * owned + (r1 + r2 + r3 + r4) * rental)
                         / (price * (owned + rental) * 365)))
     \<and> comprehensive_breakeven_occupancy m =
           Inr (100 * (((o1 + o2 + o3) * 15 + (r1 + r2 + r3 + r4) * 15)
                         / (25000 * 30 * 365)))
     \<and> breakeven_occupancy (m\<lparr>params := p, variable_costs := v\<rparr>) price owned rental =
           breakeven_occupancy m price owned rental
     \<and> comprehensive_breakeven_occupancy (m\<lparr>params := p, variable_costs := v\<rparr>) =
           comprehensive_breakeven_occupancy m"
  using breakeven_occupancy_value [OF assms(1-9), of price owned rental] assms(10)
    comprehensive_breakeven_occupancy_value [OF assms(1-9)]
  by (simp only: if_not_P breakeven_frame simp_thms)

theorem breakeven_formula_witness:
  "breakeven_occupancy init_model 25000 15 15 = Inr (100 * (35700000 / (25000 * 30 * 365)))
   \<and> comprehensive_breakeven_occupancy init_model =
       Inr (100 * (35700000 / (25000 * 30 * 365)))
   \<and> breakeven_occupancy (init_model\<lparr>params := Map.empty, variable_costs := Map.empty\<rparr>)
         25000 15 15 = breakeven_occupancy init_model 25000 15 15"
proof -
  have f: "fixed_costs init_model ''owned'' = Some [
         ''operations_fixed'' \<mapsto> 400000,
         ''utilities_fixed'' \<mapsto> 80000,
         ''insurance'' \<mapsto> 60000]"
    "fixed_costs init_model ''rental'' = Some [
         ''rent'' \<mapsto> 840000,
         ''operations_fixed'' \<mapsto> 900000,
         ''utilities_fixed'' \<mapsto> 60000,
         ''insurance'' \<mapsto> 40000]"
    by (simp_all add: init_model_def)
  show ?thesis
    using breakeven_formula [OF f(1) _ _ _ f(2),
        of 400000 80000 60000 840000 900000 60000 40000 25000 15 15 Map.empty Map.empty]
    by simp
qed

subsection \<open>The sweep loop\<close>

lemma sweep_loop_costs:
  "fixed_costs (snd (sweep_loop m param_name vals results)) = fixed_costs m
   \<and> variable_costs (snd (sweep_loop m param_name vals results)) = variable_costs m"
  by (induction vals arbitrary: m results) (auto simp: Let_def split: sum.splits)

lemma sweep_loop_arguments_only:
  "param_name = ''occupancy_rate'' \<or> param_name = ''price_per_night'' \<Longrightarrow>
   snd (sweep_loop m param_name vals results) = m"
  by (induction vals arbitrary: results) (auto split: sum.splits)

lemma params_restore:
  "params m param_name = Some v \<Longrightarrow>
   m\<lparr>params := (params m)(param_name \<mapsto> params_get m param_name)\<rparr> = m"
  by (simp add: params_get_def map_upd_triv)

lemma sweep_loop_restores:
  "param_name \<in> dom (params m) \<Longrightarrow>
   fst (sweep_loop m param_name vals results) = Inr rows \<Longrightarrow>
   snd (sweep_loop m param_name vals results) = m"
proof (induction vals arbitrary: results)
  case Nil
  then show ?case by simp
next
  case (Cons val vals)
  from Cons.prems(1) obtain v where v: "params m param_name = Some v"
    by auto
  show ?case
    using Cons.prems Cons.IH
    by (auto simp: Let_def params_restore [OF v] split: sum.splits if_splits)
qed

text \<open>For a name that is no key of \<^verbatim>\<open>params\<close>, \<^verbatim>\<open>params.get\<close> yields \<^verbatim>\<open>None\<close> and
  the write-back stores it: a sweep of at least one point that returns leaves the entry
  \<open>param_name \<mapsto> None\<close> behind.\<close>

lemma sweep_loop_absent_name:
  assumes "param_name \<noteq> ''occupancy_rate''" and "param_name \<noteq> ''price_per_night''"
    and "params m param_name = None"
    and "fst (sweep_loop m param_name (val # vals) results) = Inr rows"
  shows "snd (sweep_loop m param_name (val # vals) results) =
           m\<lparr>params := (params m)(param_name \<mapsto> PyNone)\<rparr>"
proof -
  let ?m1 = "m\<lparr>params := (params m)(param_name \<mapsto> NpNum val)\<rparr>"
  let ?m2 = "m\<lparr>params := (params m)(param_name \<mapsto> PyNone)\<rparr>"
  obtain metrics where metrics: "calculate_total_metrics ?m1 PyNone PyNone = Inr metrics"
    using assms by (auto simp: Let_def split: sum.splits)
  have step: "sweep_loop m param_name (val # vals) results =
      sweep_loop ?m2 param_name vals (results @ [result_row param_name val metrics])"
    using assms(1-3) metrics by (simp add: Let_def params_get_def)
  have "param_name \<in> dom (params ?m2)"
    by simp
  then show ?thesis
    using sweep_loop_restores [of param_name ?m2 vals _ rows] assms(4)
    unfolding step by simp
qed

lemma sweep_loop_length:
  "fst (sweep_loop m param_name vals results) = Inr rows \<Longrightarrow>
   length rows = length results + length vals"
  by (induction vals arbitrary: m results rows)
    (auto simp: Let_def split: sum.splits if_splits)

lemma linspace_length:
  "linspace start stop n = Inr vals \<Longrightarrow> length vals = nat n"
  by (auto simp: linspace_def Let_def split: if_splits)

lemma linspace_negative: "n < 0 \<Longrightarrow> linspace start stop n = Inl ValueError"
  by (simp add: linspace_def)

lemma linspace_zero: "linspace start stop 0 = Inr []"
  by (simp add: linspace_def)

lemma linspace_one: "linspace start stop 1 = Inr [start]"
  by (simp add: linspace_def)

lemma linspace_two: "linspace start stop 2 = Inr [start, stop]"
  by (simp add: linspace_def Let_def numeral_2_eq_2)

lemma total_metrics_irrelevant_param:
  assumes "k \<noteq> ''base_occupancy_rate''" "k \<noteq> ''average_price_per_night''"
    "k \<noteq> ''owned_properties''" "k \<noteq> ''rental_properties''"
    "k \<noteq> ''owned_initial_investment''" "k \<noteq> ''rental_initial_investment''"
    "k \<noteq> ''depreciation_years''"
  shows "calculate_total_metrics (m\<lparr>params := (params m)(k \<mapsto> v)\<rparr>) occ price =
         calculate_total_metrics m occ price"
  using assms
  by (simp add: calculate_total_metrics_def calculate_owned_property_metrics_def
      calculate_rental_property_metrics_def or_param_def param_num_def subscript_def
      fixed_cost_def calculate_variable_costs_def)

text \<open>What a sweep leaves of the model. The cost schedules are never touched. For
  \<open>occupancy_rate\<close> and \<open>price_per_night\<close> the model is left as it was; for a name
  that is a key of \<^verbatim>\<open>params\<close> it is as it was when the sweep returns normally.\<close>

lemma sensitivity_analysis_frame:
  "fixed_costs (snd (sensitivity_analysis m param_name lo hi steps)) = fixed_costs m
   \<and> variable_costs (snd (sensitivity_analysis m param_name lo hi steps)) = variable_costs m
   \<and> (param_name = ''occupancy_rate'' \<or> param_name = ''price_per_night'' \<longrightarrow>
        snd (sensitivity_analysis m param_name lo hi steps) = m)
   \<and> (param_name \<in> dom (params m)
        \<and> fst (sensitivity_analysis m param_name lo hi steps) = Inr rows \<longrightarrow>
        snd (sensitivity_analysis m param_name lo hi steps) = m)"
  using sweep_loop_costs sweep_loop_arguments_only sweep_loop_restores
  by (auto simp: sensitivity_analysis_def split: sum.splits)

lemma sensitivity_analysis_length:
  "fst (sensitivity_analysis m param_name lo hi steps) = Inr rows \<Longrightarrow>
   length rows = nat steps"
  using sweep_loop_length [of m param_name _ "[]" rows] linspace_length [of lo hi steps]
  by (auto simp: sensitivity_analysis_def split: sum.splits)

lemma sensitivity_analysis_no_steps:
  "sensitivity_analysis m param_name lo hi 0 = (Inr [], m)"
  by (simp add: sensitivity_analysis_def linspace_zero)

lemma sensitivity_analysis_negative_steps:
  "steps < 0 \<Longrightarrow> sensitivity_analysis m param_name lo hi steps = (Inl ValueError, m)"
  by (simp add: sensitivity_analysis_def linspace_negative)

text \<open>A sweep of one step evaluates the single sample \<open>min_val\<close>, in each of the three
  branches of the loop.\<close>

lemma sensitivity_analysis_single_step:
  "calculate_total_metrics m (NpNum lo) PyNone = Inr t \<Longrightarrow>
   sensitivity_analysis m ''occupancy_rate'' lo hi 1 =
     (Inr [result_row ''occupancy_rate'' lo t], m)"
  "calculate_total_metrics m PyNone (NpNum lo) = Inr t \<Longrightarrow>
   sensitivity_analysis m ''price_per_night'' lo hi 1 =
     (Inr [result_row ''price_per_night'' lo t], m)"
  "param_name \<noteq> ''occupancy_rate'' \<Longrightarrow> param_name \<noteq> ''price_per_night'' \<Longrightarrow>
   calculate_total_metrics (m\<lparr>params := (params m)(param_name \<mapsto> NpNum lo)\<rparr>)
     PyNone PyNone = Inr t \<Longrightarrow>
   sensitivity_analysis m param_name lo hi 1 =
     (Inr [result_row param_name lo t],
      m\<lparr>params := (params m)(param_name \<mapsto> params_get m param_name)\<rparr>)"
  by (simp_all add: sensitivity_analysis_def linspace_one Let_def)

subsection \<open>Inputs that the code accepts\<close>

lemma num_simps:
  "num PyNone = Inl TypeError" "num (PyNum r) = Inr r" "num (NpNum r) = Inr r"
  by (simp_all add: num_def)

lemma is_numpy_simps:
  "is_numpy PyNone = False" "is_numpy (PyNum r) = False" "is_numpy (NpNum r) = True"
  by (simp_all add: is_numpy_def)

lemma or_param_numeric:
  "params m k = Some (PyNum d) \<Longrightarrow>
   \<exists>v r. or_param v0 m k = Inr v \<and> num v = Inr r \<and> (is_numpy v \<longrightarrow> is_numpy v0)"
  by (cases v0) (auto simp: or_param_def truthy_def subscript_def num_def is_numpy_def)

lemma owned_metrics_accepts:
  assumes "params m ''base_occupancy_rate'' = Some (PyNum d_occ)"
    and "params m ''average_price_per_night'' = Some (PyNum d_price)"
    and "params m ''owned_properties'' = Some (PyNum d_owned)"
    and "params m ''owned_initial_investment'' = Some (PyNum investment)"
    and "params m ''depreciation_years'' = Some (PyNum years)"
    and "fixed_costs m ''owned'' = Some fo"
    and "fo ''operations_fixed'' = Some o1" and "fo ''utilities_fixed'' = Some o2"
    and "fo ''insurance'' = Some o3"
    and "variable_costs m ''owned'' = Some vo"
  shows "years = 0 \<Longrightarrow> \<not> is_numpy n \<Longrightarrow>
           calculate_owned_property_metrics m occ price n = Inl ZeroDivisionError"
    and "years \<noteq> 0 \<Longrightarrow> \<exists>ow. calculate_owned_property_metrics m occ price n = Inr ow"
proof -
  obtain a ra where a: "or_param occ m ''base_occupancy_rate'' = Inr a" "num a = Inr ra"
    using or_param_numeric [OF assms(1)] by blast
  obtain b rb where b: "or_param price m ''average_price_per_night'' = Inr b" "num b = Inr rb"
    using or_param_numeric [OF assms(2)] by blast
  obtain c rc where c: "or_param n m ''owned_properties'' = Inr c" "num c = Inr rc"
      "is_numpy c \<longrightarrow> is_numpy n"
    using or_param_numeric [OF assms(3)] by blast
  show "years = 0 \<Longrightarrow> \<not> is_numpy n \<Longrightarrow>
           calculate_owned_property_metrics m occ price n = Inl ZeroDivisionError"
    using assms(4-) c(3)
    by (simp add: calculate_owned_property_metrics_def a b c(1,2) fixed_cost_def
        subscript_def true_div_def num_simps is_numpy_simps calculate_variable_costs_def
        Let_def)
  show "years \<noteq> 0 \<Longrightarrow> \<exists>ow. calculate_owned_property_metrics m occ price n = Inr ow"
    using assms(4-)
    by (simp add: calculate_owned_property_metrics_def a b c(1,2) fixed_cost_def
        subscript_def true_div_def num_simps is_numpy_simps calculate_variable_costs_def
        Let_def)
qed

lemma rental_metrics_accepts:
  assumes "params m ''base_occupancy_rate'' = Some (PyNum d_occ)"
    and "params m ''average_price_per_night'' = Some (PyNum d_price)"
    and "params m ''rental_properties'' = Some (PyNum d_rental)"
    and "params m ''rental_initial_investment'' = Some (PyNum investment)"
    and "fixed_costs m ''rental'' = Some fr"
    and "fr ''rent'' = Some r1" and "fr ''operations_fixed'' = Some r2"
    and "fr ''utilities_fixed'' = Some r3" and "fr ''insurance'' = Some r4"
    and "variable_costs m ''rental'' = Some vr"
  shows "\<exists>re. calculate_rental_property_metrics m occ price n = Inr re"
proof -
  obtain a ra where a: "or_param occ m ''base_occupancy_rate'' = Inr a" "num a = Inr ra"
    using or_param_numeric [OF assms(1)] by blast
  obtain b rb where b: "or_param price m ''average_price_per_night'' = Inr b" "num b = Inr rb"
    using or_param_numeric [OF assms(2)] by blast
  obtain c rc where c: "or_param n m ''rental_properties'' = Inr c" "num c = Inr rc"
    using or_param_numeric [OF assms(3)] by blast
  show ?thesis
    using assms(4-)
    by (simp add: calculate_rental_property_metrics_def a b c fixed_cost_def
        subscript_def param_num_def num_simps calculate_variable_costs_def Let_def)
qed

text \<open>With Python numbers in every entry the engine reads, the portfolio evaluation
  returns unless \<^verbatim>\<open>depreciation_years\<close> is 0, in which case the division raises.\<close>

lemma total_metrics_accepts:
  assumes "params m ''base_occupancy_rate'' = Some (PyNum d_occ)"
    and "params m ''average_price_per_night'' = Some (PyNum d_price)"
    and "params m ''owned_properties'' = Some (PyNum d_owned)"
    and "params m ''rental_properties'' = Some (PyNum d_rental)"
    and "params m ''owned_initial_investment'' = Some (PyNum owned_investment)"
    and "params m ''rental_initial_investment'' = Some (PyNum rental_investment)"
    and "params m ''depreciation_years'' = Some (PyNum years)"
    and "fixed_costs m ''owned'' = Some fo"
    and "fo ''operations_fixed'' = Some o1" and "fo ''utilities_fixed'' = Some o2"
    and "fo ''insurance'' = Some o3"
    and "fixed_costs m ''rental'' = Some fr"
    and "fr ''rent'' = Some r1" and "fr ''operations_fixed'' = Some r2"
    and "fr ''utilities_fixed'' = Some r3" and "fr ''insurance'' = Some r4"
    and "variable_costs m ''owned'' = Some vo"
    and "variable_costs m ''rental'' = Some vr"
  shows "years = 0 \<Longrightarrow> calculate_total_metrics m occ price = Inl ZeroDivisionError"
    and "years \<noteq> 0 \<Longrightarrow> \<exists>t. calculate_total_metrics m occ price = Inr t"
proof -
  note owned = owned_metrics_accepts [OF assms(1,2,3,5,7,8,9,10,11,17), where n = PyNone
      and occ = occ and price = price]
  note rental = rental_metrics_accepts [OF assms(1,2,4,6,12,13,14,15,16,18),
      where n = PyNone and occ = occ and price = price]
  show "years = 0 \<Longrightarrow> calculate_total_metrics m occ price = Inl ZeroDivisionError"
    using owned(1) by (simp add: calculate_total_metrics_def is_numpy_simps)
  show "years \<noteq> 0 \<Longrightarrow> \<exists>t. calculate_total_metrics m occ price = Inr t"
  proof -
    assume "years \<noteq> 0"
    then obtain ow where "calculate_owned_property_metrics m occ price PyNone = Inr ow"
      using owned(2) by blast
    moreover obtain re where "calculate_rental_property_metrics m occ price PyNone = Inr re"
      using rental by blast
    ultimately show ?thesis
      by (simp add: calculate_total_metrics_def Let_def)
  qed
qed

text \<open>Whenever the owned-class evaluation returns, the depreciation is the total
  investment divided by \<^verbatim>\<open>depreciation_years\<close>, whatever the sign of that entry, and a
  value that is not finite when the entry is 0.\<close>

lemma owned_depreciation:
  assumes "calculate_owned_property_metrics m occ price n = Inr ow"
    and "params m ''depreciation_years'' = Some years" and "num years = Inr y"
  shows "o_depreciation ow = (if y = 0 then NonFinite else Fin (o_total_investment ow / y))"
  using assms
  by (auto simp add: calculate_owned_property_metrics_def and_then_eq_Inr subscript_def
      true_div_def Let_def split: option.splits if_splits)

subsection \<open>No input validation\<close>

lemma total_low_occupancy:
  "calculate_total_metrics init_model (NpNum 0.15) PyNone = Inr low_occupancy_total"
  by (simp add: calculate_total_metrics_def calculate_owned_property_metrics_def
      calculate_rental_property_metrics_def init_model_def engine_defs Let_def)

text \<open>
  Claim C7 states that every invalid input, a sweep with fewer than two steps among them,
  is rejected with a ConfigurationError. A sweep with \<open>steps = 1\<close> is accepted: it
  returns one row, computed at \<open>min_val\<close>.
\<close>

theorem sweep_single_step_counterexample:
  "sensitivity_analysis init_model ''occupancy_rate'' 0.15 0.70 1 =
     (Inr [[''occupancy_rate'' \<mapsto> CNum 0.15,
            ''total_profit'' \<mapsto> CNum 2601750,
            ''overall_roi'' \<mapsto> CNum (3469 / 4880),
            ''overall_payback'' \<mapsto> CPayback (Finite (488000 / 3469))]],
      init_model)"
  using total_low_occupancy
  by (simp add: sensitivity_analysis_def linspace_one result_row_def)

lemma zero_years_python:
  "calculate_total_metrics zero_years_model PyNone PyNone = Inl ZeroDivisionError"
  by (simp add: calculate_total_metrics_def calculate_owned_property_metrics_def
      init_model_def engine_defs Let_def)

lemma zero_years_numpy:
  "calculate_owned_property_metrics
     (init_model\<lparr>params := (params init_model)(''depreciation_years'' \<mapsto> NpNum 0)\<rparr>)
     PyNone PyNone PyNone = Inr zero_years_owned"
  by (simp add: calculate_owned_property_metrics_def init_model_def engine_defs Let_def)

lemma negative_model_total:
  "calculate_total_metrics negative_model PyNone PyNone = Inr negative_model_result"
  by (simp add: calculate_total_metrics_def calculate_owned_property_metrics_def
      calculate_rental_property_metrics_def init_model_def engine_defs Let_def)

lemma depreciation_years_sweep:
  "sensitivity_analysis init_model ''depreciation_years'' 0 7 2 =
     (Inr [[''depreciation_years'' \<mapsto> CNum 0,
            ''total_profit'' \<mapsto> CNum 48563850,
            ''overall_roi'' \<mapsto> CNum (323759 / 24400),
            ''overall_payback'' \<mapsto> CPayback (Finite (2440000 / 323759))],
           [''depreciation_years'' \<mapsto> CNum 7,
            ''total_profit'' \<mapsto> CNum 48563850,
            ''overall_roi'' \<mapsto> CNum (323759 / 24400),
            ''overall_payback'' \<mapsto> CPayback (Finite (2440000 / 323759))]],
      init_model)"
proof -
  have "params init_model ''depreciation_years'' = Some (PyNum 7)"
    by (simp add: init_model_def)
  then have same:
    "init_model\<lparr>params := (params init_model)(''depreciation_years'' \<mapsto> PyNum 7)\<rparr>
      = init_model"
    and get: "params_get init_model ''depreciation_years'' = PyNum 7"
    by (simp_all add: map_upd_triv params_get_def)
  have zero: "calculate_total_metrics
      (init_model\<lparr>params := (params init_model)(''depreciation_years'' \<mapsto> NpNum 0)\<rparr>)
      PyNone PyNone =
      Inr (baseline_total\<lparr>owned_metrics := zero_years_owned\<rparr>)"
    by (simp add: calculate_total_metrics_def calculate_owned_property_metrics_def
        calculate_rental_property_metrics_def init_model_def engine_defs Let_def)
  have seven: "calculate_total_metrics
      (init_model\<lparr>params := (params init_model)(''depreciation_years'' \<mapsto> NpNum 7)\<rparr>)
      PyNone PyNone = Inr baseline_total"
    by (simp add: calculate_total_metrics_def calculate_owned_property_metrics_def
        calculate_rental_property_metrics_def init_model_def engine_defs Let_def)
  show ?thesis
    by (simp add: sensitivity_analysis_def linspace_two zero seven get same result_row_def
        Let_def)
qed

text \<open>
  Claim C7, amended. The code defines no ConfigurationError and validates no input. A
  sweep with \<open>steps = 1\<close> is accepted: when the evaluation at \<open>min_val\<close> returns, the
  sweep returns exactly the one row computed at \<open>min_val\<close>; a sweep with \<open>steps = 0\<close>
  returns an empty result; only a negative \<open>steps\<close> is rejected, with the
  \<open>ValueError\<close> of \<^verbatim>\<open>numpy.linspace\<close>; a sweep that returns has \<open>steps\<close> rows. The entry
  \<^verbatim>\<open>depreciation_years\<close> is not checked: whenever the owned-class evaluation returns, its
  depreciation is the total investment divided by that entry if the entry is not 0,
  negative entries included, and a value that is not finite (\<^verbatim>\<open>inf\<close>, \<^verbatim>\<open>-inf\<close> or
  \<^verbatim>\<open>nan\<close>) if it is 0, as happens with the numpy samples of a sweep; with Python numbers
  only, the entry 0 makes the division raise \<open>ZeroDivisionError\<close>, as in the freshly
  constructed model with \<^verbatim>\<open>depreciation_years = 0\<close>. Negative values are not rejected:
  the freshly constructed model with \<^verbatim>\<open>depreciation_years = -7\<close> and a rental investment
  of \<open>-5,500,000\<close> is evaluated to metrics with a depreciation of \<open>-40,500,000\<close> and a
  negative rental payback. The reference occupancy rate is the constant 0.33 of
  \<^verbatim>\<open>calculate_variable_costs\<close> and is no input.
\<close>

theorem no_input_validation:
  "sensitivity_analysis m param_name lo hi 0 = (Inr [], m)
   \<and> (steps < 0 \<longrightarrow>
        sensitivity_analysis m param_name lo hi steps = (Inl ValueError, m))
   \<and> (calculate_total_metrics m (NpNum lo) PyNone = Inr t \<longrightarrow>
        sensitivity_analysis m ''occupancy_rate'' lo hi 1 =
          (Inr [result_row ''occupancy_rate'' lo t], m))
   \<and> (calculate_total_metrics m PyNone (NpNum lo) = Inr t \<longrightarrow>
        sensitivity_analysis m ''price_per_night'' lo hi 1 =
          (Inr [result_row ''price_per_night'' lo t], m))
   \<and> (param_name \<noteq> ''occupancy_rate'' \<and> param_name \<noteq> ''price_per_night''
        \<and> calculate_total_metrics (m\<lparr>params := (params m)(param_name \<mapsto> NpNum lo)\<rparr>)
             PyNone PyNone = Inr t \<longrightarrow>
        sensitivity_analysis m param_name lo hi 1 =
          (Inr [result_row param_name lo t],
           m\<lparr>params := (params m)(param_name \<mapsto> params_get m param_name)\<rparr>))
   \<and> (fst (sensitivity_analysis m param_name lo hi steps) = Inr rows \<longrightarrow>
        length rows = nat steps)
   \<and> (calculate_owned_property_metrics m occ price n = Inr ow
        \<and> params m ''depreciation_years'' = Some years \<and> num years = Inr y \<longrightarrow>
        o_depreciation ow =
          (if y = 0 then NonFinite else Fin (o_total_investment ow / y)))
   \<and> calculate_total_metrics zero_years_model PyNone PyNone = Inl ZeroDivisionError
   \<and> calculate_total_metrics negative_model PyNone PyNone = Inr negative_model_result"
proof (intro conjI impI)
  show "sensitivity_analysis m param_name lo hi 0 = (Inr [], m)"
    by (rule sensitivity_analysis_no_steps)
  show "sensitivity_analysis m param_name lo hi steps = (Inl ValueError, m)" if "steps < 0"
    using that by (rule sensitivity_analysis_negative_steps)
  show "sensitivity_analysis m ''occupancy_rate'' lo hi 1 =
      (Inr [result_row ''occupancy_rate'' lo t], m)"
    if "calculate_total_metrics m (NpNum lo) PyNone = Inr t"
    using that by (rule sensitivity_analysis_single_step(1))
  show "sensitivity_analysis m ''price_per_night'' lo hi 1 =
      (Inr [result_row ''price_per_night'' lo t], m)"
    if "calculate_total_metrics m PyNone (NpNum lo) = Inr t"
    using that by (rule sensitivity_analysis_single_step(2))
  show "sensitivity_analysis m param_name lo hi 1 =
      (Inr [result_row param_name lo t],
       m\<lparr>params := (params m)(param_name \<mapsto> params_get m param_name)\<rparr>)"
    if "param_name \<noteq> ''occupancy_rate'' \<and> param_name \<noteq> ''price_per_night''
        \<and> calculate_total_metrics (m\<lparr>params := (params m)(param_name \<mapsto> NpNum lo)\<rparr>)
             PyNone PyNone = Inr t"
    using that sensitivity_analysis_single_step(3) [of param_name m lo t hi] by blast
  show "length rows = nat steps"
    if "fst (sensitivity_analysis m param_name lo hi steps) = Inr rows"
    using that by (rule sensitivity_analysis_length)
  show "o_depreciation ow = (if y = 0 then NonFinite else Fin (o_total_investment ow / y))"
    if "calculate_owned_property_metrics m occ price n = Inr ow
        \<and> params m ''depreciation_years'' = Some years \<and> num years = Inr y"
    using that owned_depreciation [of m occ price n ow years y] by blast
  show "calculate_total_metrics zero_years_model PyNone PyNone = Inl ZeroDivisionError"
    by (rule zero_years_python)
  show "calculate_total_metrics negative_model PyNone PyNone = Inr negative_model_result"
    by (rule negative_model_total)
qed

theorem no_input_validation_witness:
  "sensitivity_analysis init_model ''depreciation_years'' 0 7 0 = (Inr [], init_model)
   \<and> sensitivity_analysis init_model ''depreciation_years'' 0 7 (- 1) =
       (Inl ValueError, init_model)
   \<and> sensitivity_analysis init_model ''occupancy_rate'' 0.15 0.70 1 =
       (Inr [result_row ''occupancy_rate'' 0.15 low_occupancy_total], init_model)
   \<and> sensitivity_analysis init_model ''depreciation_years'' 0 7 2 =
       (Inr [[''depreciation_years'' \<mapsto> CNum 0,
              ''total_profit'' \<mapsto> CNum 48563850,
              ''overall_roi'' \<mapsto> CNum (323759 / 24400),
              ''overall_payback'' \<mapsto> CPayback (Finite (2440000 / 323759))],
             [''depreciation_years'' \<mapsto> CNum 7,
              ''total_profit'' \<mapsto> CNum 48563850,
              ''overall_roi'' \<mapsto> CNum (323759 / 24400),
              ''overall_payback'' \<mapsto> CPayback (Finite (2440000 / 323759))]],
        init_model)
   \<and> length [[''depreciation_years'' \<mapsto> CNum 0,
              ''total_profit'' \<mapsto> CNum 48563850,
              ''overall_roi'' \<mapsto> CNum (323759 / 24400),
              ''overall_payback'' \<mapsto> CPayback (Finite (2440000 / 323759))],
             [''depreciation_years'' \<mapsto> CNum 7,
              ''total_profit'' \<mapsto> CNum 48563850,
              ''overall_roi'' \<mapsto> CNum (323759 / 24400),
              ''overall_payback'' \<mapsto> CPayback (Finite (2440000 / 323759))]] = nat 2
   \<and> calculate_owned_property_metrics
        (init_model\<lparr>params := (params init_model)(''depreciation_years'' \<mapsto> NpNum 0)\<rparr>)
        PyNone PyNone PyNone = Inr zero_years_owned
   \<and> o_depreciation zero_years_owned = NonFinite
   \<and> calculate_total_metrics negative_model PyNone PyNone = Inr negative_model_result
   \<and> o_depreciation (owned_metrics negative_model_result) =
       Fin (o_total_investment (owned_metrics negative_model_result) / (- 7))"
proof -
  have years: "params (init_model\<lparr>params := (params init_model)
      (''depreciation_years'' \<mapsto> NpNum 0)\<rparr>) ''depreciation_years'' = Some (NpNum 0)"
    "num (NpNum 0) = Inr 0"
    by (simp_all add: num_simps)
  note sweeps = no_input_validation [where m = init_model
      and param_name = "''depreciation_years''" and lo = 0 and hi = 7 and steps = "- 1"]
  note single = no_input_validation [where m = init_model and lo = "0.15" and hi = "0.70"
      and t = low_occupancy_total]
  note rows = no_input_validation [where m = init_model
      and param_name = "''depreciation_years''" and lo = 0 and hi = 7 and steps = 2]
  note zero = no_input_validation [where occ = PyNone and price = PyNone and n = PyNone
      and ow = zero_years_owned and years = "NpNum 0" and y = 0 and m =
      "init_model\<lparr>params := (params init_model)(''depreciation_years'' \<mapsto> NpNum 0)\<rparr>"]
  note negative = no_input_validation [where m = negative_model and occ = PyNone
      and price = PyNone and n = PyNone and years = "PyNum (- 7)" and y = "- 7"
      and ow = "owned_metrics negative_model_result"]
  show ?thesis
    using sweeps single rows zero negative total_low_occupancy depreciation_years_sweep
      zero_years_numpy years
    by simp
qed

subsection \<open>The model after a sweep and after the cost what-if block\<close>

lemma model_of_init: "model_of init_app_model = init_model"
  by (simp add: model_of_def init_app_model_def init_model_def fun_eq_iff)

lemma absent_name_sweep:
  "sensitivity_analysis init_model ''operations_fixed'' 300000 500000 2 =
     (Inr [result_row ''operations_fixed'' 300000 baseline_total,
           result_row ''operations_fixed'' 500000 baseline_total],
      init_model\<lparr>params := (params init_model)(''operations_fixed'' \<mapsto> PyNone)\<rparr>)"
proof -
  have "params init_model ''operations_fixed'' = None"
    by (simp add: init_model_def)
  then show ?thesis
    by (simp add: sensitivity_analysis_def linspace_two total_metrics_irrelevant_param
        total_baseline params_get_def Let_def)
qed

lemma cost_what_if_run:
  "cost_what_if init_app_model (PyNum 0.33) (PyNum 25000) baseline_total =
     (Inr what_if_values, what_if_final)"
  by (simp add: cost_what_if_def step_def scale_fixed_def scale_variable_def model_of_def
      init_app_model_def init_model_def calculate_total_metrics_def
      calculate_owned_property_metrics_def calculate_rental_property_metrics_def
      engine_defs Let_def fun_eq_iff)

text \<open>
  Claim C8. After a sweep returns, the parameter set and the cost schedules are to be
  exactly what they were, also for a name the base set did not contain, and a what-if
  evaluation is to leave the shared cost schedules as they were. The code restores the
  state in both places (``temporarily change'' in \<^verbatim>\<open>sensitivity_analysis\<close>, ``restore
  the original values'' in the what-if block) and misses it in both. A sweep over
  \<open>operations_fixed\<close>, which is no key of \<^verbatim>\<open>params\<close>, returns its two rows and leaves
  the new entry \<open>operations_fixed \<mapsto> None\<close> behind. The cost what-if block, run on the
  freshly constructed model at the default slider values, returns and leaves every
  scaled cost entry changed, because the saved copies share the inner dictionaries:
  the owned \<open>utilities_fixed\<close> is \<open>80000 * 1.4 * 0.85 = 95200\<close> and the rent is
  \<open>840000 * 1.15 * 0.97 = 937020\<close>; the cost-savings scenario itself is computed on the
  raised costs and shows a loss.
\<close>

theorem state_not_restored:
  "params init_model ''operations_fixed'' = None
   \<and> sensitivity_analysis init_model ''operations_fixed'' 300000 500000 2 =
       (Inr [result_row ''operations_fixed'' 300000 baseline_total,
             result_row ''operations_fixed'' 500000 baseline_total],
        init_model\<lparr>params := (params init_model)(''operations_fixed'' \<mapsto> PyNone)\<rparr>)
   \<and> params (snd (sensitivity_analysis init_model ''operations_fixed'' 300000 500000 2))
        ''operations_fixed'' = Some PyNone
   \<and> snd (sensitivity_analysis init_model ''operations_fixed'' 300000 500000 2)
       \<noteq> init_model
   \<and> model_of init_app_model = init_model
   \<and> cost_what_if init_app_model (PyNum 0.33) (PyNum 25000) baseline_total =
       (Inr what_if_values, what_if_final)
   \<and> fixed_cost init_model ''owned'' ''operations_fixed'' = Inr 400000
   \<and> fixed_cost (model_of what_if_final) ''owned'' ''operations_fixed'' = Inr 460000
   \<and> fixed_cost init_model ''owned'' ''utilities_fixed'' = Inr 80000
   \<and> fixed_cost (model_of what_if_final) ''owned'' ''utilities_fixed'' = Inr 95200
   \<and> fixed_cost init_model ''rental'' ''rent'' = Inr 840000
   \<and> fixed_cost (model_of what_if_final) ''rental'' ''rent'' = Inr 937020
   \<and> fixed_cost init_model ''rental'' ''operations_fixed'' = Inr 900000
   \<and> fixed_cost (model_of what_if_final) ''rental'' ''operations_fixed'' = Inr 1035000
   \<and> fixed_cost init_model ''rental'' ''utilities_fixed'' = Inr 60000
   \<and> fixed_cost (model_of what_if_final) ''rental'' ''utilities_fixed'' = Inr 71400
   \<and> variable_costs init_model ''owned'' =
       Some [(''operations_variable'', 79200), (''utilities_variable'', 22440),
             (''cleaning_maintenance'', 39600)]
   \<and> variable_costs (model_of what_if_final) ''owned'' =
       Some [(''operations_variable'', 92664), (''utilities_variable'', 26928),
             (''cleaning_maintenance'', 39600)]
   \<and> variable_costs init_model ''rental'' =
       Some [(''operations_variable'', 196020), (''utilities_variable'', 18150),
             (''cleaning_maintenance'', 49500)]
   \<and> variable_costs (model_of what_if_final) ''rental'' =
       Some [(''operations_variable'', 1146717 / 5), (''utilities_variable'', 21780),
             (''cleaning_maintenance'', 49500)]
   \<and> model_of what_if_final \<noteq> init_model
   \<and> cost_savings_impact what_if_values < 0"
proof -
  have none: "params init_model ''operations_fixed'' = None"
    by (simp add: init_model_def)
  have sweep: "snd (sensitivity_analysis init_model ''operations_fixed'' 300000 500000 2)
      \<noteq> init_model"
  proof
    assume "snd (sensitivity_analysis init_model ''operations_fixed'' 300000 500000 2)
      = init_model"
    then have
      "params (snd (sensitivity_analysis init_model ''operations_fixed'' 300000 500000 2))
         ''operations_fixed'' = params init_model ''operations_fixed''"
      by simp
    then show False
      by (simp add: absent_name_sweep none)
  qed
  have before: "fixed_cost init_model ''owned'' ''operations_fixed'' = Inr 400000"
    "fixed_cost init_model ''owned'' ''utilities_fixed'' = Inr 80000"
    "fixed_cost init_model ''rental'' ''rent'' = Inr 840000"
    "fixed_cost init_model ''rental'' ''operations_fixed'' = Inr 900000"
    "fixed_cost init_model ''rental'' ''utilities_fixed'' = Inr 60000"
    "variable_costs init_model ''owned'' =
       Some [(''operations_variable'', 79200), (''utilities_variable'', 22440),
             (''cleaning_maintenance'', 39600)]"
    "variable_costs init_model ''rental'' =
       Some [(''operations_variable'', 196020), (''utilities_variable'', 18150),
             (''cleaning_maintenance'', 49500)]"
    by (simp_all add: fixed_cost_def subscript_def init_model_def)
  have after: "fixed_cost (model_of what_if_final) ''owned'' ''operations_fixed'' = Inr 460000"
    "fixed_cost (model_of what_if_final) ''owned'' ''utilities_fixed'' = Inr 95200"
    "fixed_cost (model_of what_if_final) ''rental'' ''rent'' = Inr 937020"
    "fixed_cost (model_of what_if_final) ''rental'' ''operations_fixed'' = Inr 1035000"
    "fixed_cost (model_of what_if_final) ''rental'' ''utilities_fixed'' = Inr 71400"
    "variable_costs (model_of what_if_final) ''owned'' =
       Some [(''operations_variable'', 92664), (''utilities_variable'', 26928),
             (''cleaning_maintenance'', 39600)]"
    "variable_costs (model_of what_if_final) ''rental'' =
       Some [(''operations_variable'', 1146717 / 5), (''utilities_variable'', 21780),
             (''cleaning_maintenance'', 49500)]"
    by (simp_all add: fixed_cost_def subscript_def model_of_def init_app_model_def)
  have changed: "model_of what_if_final \<noteq> init_model"
  proof
    assume "model_of what_if_final = init_model"
    then have "fixed_cost (model_of what_if_final) ''rental'' ''rent'' =
        fixed_cost init_model ''rental'' ''rent''"
      by simp
    then show False
      by (simp only: before after) simp
  qed
  have entry:
    "params (snd (sensitivity_analysis init_model ''operations_fixed'' 300000 500000 2))
       ''operations_fixed'' = Some PyNone"
    by (simp add: absent_name_sweep)
  have loss: "cost_savings_impact what_if_values < 0"
    by simp
  show ?thesis
    by (intro conjI)
      (rule none absent_name_sweep entry sweep model_of_init cost_what_if_run before after
        changed loss)+
qed

end
